theory Spec2Isabelle
  imports Complex_Main "HOL-Library.Word" "HOL-Library.AList"
begin

section \<open>Values shared by the project model\<close>

text \<open>
  Exceptions of the Python code are values of \<open>error\<close>; a function that can raise
  returns \<open>error + 'a\<close> with \<open>Inl\<close> for the exception.
\<close>

datatype error =
    ValueError
  | KeyError
  | TypeError
  | AttributeError
  | ZeroDivisionError
  | FileNotFoundError
  | JSONDecodeError
  | RenderError
  | AudioReadError

text \<open>
  A Python \<open>float\<close> is an IEEE double: the model carries its 64 bits and never does
  arithmetic on them.
\<close>

datatype pyfloat = PyFloat (float_bits: "64 word")

text \<open>
  The values \<open>json.loads\<close> produces and \<open>json.dump\<close> accepts. A \<open>dict\<close> is an
  association list in insertion order.
\<close>

datatype json =
    JNull
  | JBool bool
  | JInt int
  | JFloat pyfloat
  | JStr string
  | JList "json list"
  | JObj "(string \<times> json) list"

type_synonym pydict = "(string \<times> json) list"

subsection \<open>The data model of \<open>project.py\<close>\<close>

record ProjectSettings =
  sample_rate :: int
  loudness_lufs :: pyfloat
  model_name :: string
  attention_type :: string
  global_seed :: int
  crossfade_ms :: int
  chunks_dir :: string
  final_mix :: string
  default_params :: pydict

record ChunkData =
  index :: int
  filename :: string
  "text" :: string
  char_start :: int
  char_end :: int
  t_start_ms :: int
  duration_ms :: int
  seed :: int
  params :: pydict
  speaker_id :: int

text \<open>A path is the list of its components; \<open>root / name\<close> appends one component.\<close>

type_synonym path = "string list"

record ProjectData =
  project_root :: path
  settings :: ProjectSettings
  chunks :: "ChunkData list"

subsection \<open>Timeline\<close>

text \<open>
  \<open>recalculate_timeline\<close> walks \<open>sorted(project.chunks, key=index)\<close> and assigns
  \<open>t_start_ms\<close> on the chunk objects, which stay at their places in \<open>project.chunks\<close>.
  The sorted walk is the stable sort of the positions of the list; each step writes the
  chunk at one position. \<open>int(round(n))\<close> of an \<open>int\<close> is \<open>n\<close>.
\<close>

definition sorted_positions :: "ChunkData list \<Rightarrow> nat list" where
  "sorted_positions cs = sort_key (\<lambda>i. index (cs ! i)) [0..<length cs]"

fun timeline_loop :: "int \<Rightarrow> int \<Rightarrow> nat list \<Rightarrow> ChunkData list \<Rightarrow> ChunkData list" where
  "timeline_loop cf current_start [] cs = cs"
| "timeline_loop cf current_start (i # is) cs =
     (let t = max current_start 0;
          cs' = cs[i := (cs ! i)\<lparr>t_start_ms := t\<rparr>];
          nxt = t + duration_ms (cs ! i) - cf
      in timeline_loop cf (if nxt < 0 then 0 else nxt) is cs')"

definition recalculate_timeline :: "ProjectData \<Rightarrow> ProjectData" where
  "recalculate_timeline project =
     project\<lparr>chunks :=
       timeline_loop (crossfade_ms (settings project)) 0
         (sorted_positions (chunks project)) (chunks project)\<rparr>"

subsection \<open>Lookup by timestamp\<close>

text \<open>
  The scan is over the chunks sorted by index; the fallback reads \<open>project.chunks[-1]\<close>,
  the last chunk of the stored list.
\<close>

definition covers :: "int \<Rightarrow> ChunkData \<Rightarrow> bool" where
  "covers timestamp_ms c \<longleftrightarrow>
     t_start_ms c \<le> timestamp_ms \<and> timestamp_ms < t_start_ms c + duration_ms c"

definition find_chunk_by_timestamp :: "ProjectData \<Rightarrow> int \<Rightarrow> ChunkData option" where
  "find_chunk_by_timestamp project timestamp_ms =
     (case find (covers timestamp_ms) (sort_key index (chunks project)) of
        Some c \<Rightarrow> Some c
      | None \<Rightarrow>
          if chunks project \<noteq> [] \<and> t_start_ms (last (chunks project)) \<le> timestamp_ms
          then Some (last (chunks project))
          else None)"

section \<open>Audio (\<open>audio.py\<close>)\<close>

text \<open>
  A waveform is the list of its samples. Samples are real numbers: the model keeps the
  values the floating-point code approximates and ignores the rounding of \<open>float32\<close>.

  \<open>int(round(a / b))\<close>: Python rounds a float to the nearest integer, ties to the even
  one. The model rounds the exact quotient; the double quotient rounds to the same
  integer as long as the magnitude of \<open>a\<close> stays below \<open>2 ^ 52\<close>.
\<close>

type_synonym audio = "real list"

definition round_half_even_div :: "int \<Rightarrow> int \<Rightarrow> int" where
  "round_half_even_div a b =
     (let q = a div b; r = a mod b
      in if 2 * \<bar>r\<bar> < \<bar>b\<bar> then q
         else if \<bar>b\<bar> < 2 * \<bar>r\<bar> then q + 1
         else if even q then q else q + 1)"

definition calculate_duration_ms :: "audio \<Rightarrow> int \<Rightarrow> error + int" where
  "calculate_duration_ms data sr =
     (if length data = 0 then Inr 0
      else if sr = 0 then Inl ZeroDivisionError
      else Inr (round_half_even_div (int (length data) * 1000) sr))"

text \<open>\<open>np.linspace(0, pi / 2, n, endpoint=False)\<close>: the step is \<open>(pi / 2) / n\<close>.\<close>

definition fade :: "nat \<Rightarrow> real list" where
  "fade n = map (\<lambda>k. real k * ((pi / 2) / real n)) [0..<n]"

definition fade_out :: "nat \<Rightarrow> real list" where
  "fade_out n = map (\<lambda>\<theta>. (cos \<theta>)\<^sup>2) (fade n)"

definition fade_in :: "nat \<Rightarrow> real list" where
  "fade_in n = map (\<lambda>\<theta>. (sin \<theta>)\<^sup>2) (fade n)"

definition cosine_crossfade :: "audio \<Rightarrow> audio \<Rightarrow> int \<Rightarrow> audio" where
  "cosine_crossfade first second crossfade_samples =
     (if crossfade_samples \<le> 0 \<or> length first = 0 then first @ second
      else
        let n = min (nat crossfade_samples) (min (length first) (length second))
        in if n = 0 then first @ second
           else
             let overlap =
                   map2 (+) (map2 (*) (drop (length first - n) first) (fade_out n))
                            (map2 (*) (take n second) (fade_in n));
                 prefix = take (length first - n) first;
                 suffix = drop n second
             in prefix @ overlap @ suffix)"

definition stitch_chunks :: "audio list \<Rightarrow> int \<Rightarrow> int \<Rightarrow> audio" where
  "stitch_chunks chunk_list sr cf_ms =
     (case chunk_list of
        [] \<Rightarrow> []
      | c # rest \<Rightarrow>
          fold (\<lambda>chunk result.
                  cosine_crossfade result chunk (round_half_even_div (sr * cf_ms) 1000))
               rest c)"

text \<open>
  \<open>librosa.effects.time_stretch\<close> is a library call: the model takes it as the parameter
  \<open>stretch\<close>, which receives the waveform and the rate and may raise.
\<close>

type_synonym stretcher = "audio \<Rightarrow> real \<Rightarrow> error + audio"

definition desired_samples :: "int \<Rightarrow> int \<Rightarrow> int" where
  "desired_samples target_duration_ms sr =
     max (round_half_even_div (target_duration_ms * sr) 1000) 1"

definition time_stretch_to_duration ::
  "stretcher \<Rightarrow> audio \<Rightarrow> int \<Rightarrow> int \<Rightarrow> error + audio" where
  "time_stretch_to_duration stretch data sr target_duration_ms =
     (if target_duration_ms \<le> 0 \<or> length data = 0 then Inr data
      else
        case calculate_duration_ms data sr of
          Inl e \<Rightarrow> Inl e
        | Inr current_duration_ms \<Rightarrow>
            if current_duration_ms = 0 then Inr data
            else
              let desired = nat (desired_samples target_duration_ms sr);
                  rate = real_of_int current_duration_ms / real_of_int target_duration_ms
              in case stretch data rate of
                   Inl e \<Rightarrow> Inl e
                 | Inr stretched \<Rightarrow>
                     if desired < length stretched then Inr (take desired stretched)
                     else if length stretched < desired
                     then Inr (stretched @ replicate (desired - length stretched) 0)
                     else Inr stretched)"

section \<open>Persistence (\<open>project.py\<close>)\<close>

subsection \<open>Built-in conversions\<close>

text \<open>
  \<open>from_dict\<close> passes what it reads through \<open>int\<close>, \<open>float\<close>, \<open>str\<close> and \<open>dict\<close>.
  On a value that already has the requested type the conversion returns it. What the
  built-ins do on any other value (parsing text, truncating a float, \<open>repr\<close>, building a
  dict from pairs, raising) is taken as a parameter, so every result below holds for
  whatever they do there.
\<close>

record builtins =
  int_conv :: "json \<Rightarrow> error + int"
  float_conv :: "json \<Rightarrow> error + pyfloat"
  str_conv :: "json \<Rightarrow> string"
  dict_conv :: "json \<Rightarrow> error + pydict"

definition py_int :: "builtins \<Rightarrow> json \<Rightarrow> error + int" where
  "py_int bi v =
     (case v of JInt n \<Rightarrow> Inr n | JBool b \<Rightarrow> Inr (if b then 1 else 0) | _ \<Rightarrow> int_conv bi v)"

definition py_float :: "builtins \<Rightarrow> json \<Rightarrow> error + pyfloat" where
  "py_float bi v = (case v of JFloat f \<Rightarrow> Inr f | _ \<Rightarrow> float_conv bi v)"

definition py_str :: "builtins \<Rightarrow> json \<Rightarrow> string" where
  "py_str bi v = (case v of JStr s \<Rightarrow> s | _ \<Rightarrow> str_conv bi v)"

definition py_dict :: "builtins \<Rightarrow> json \<Rightarrow> error + pydict" where
  "py_dict bi v = (case v of JObj kvs \<Rightarrow> Inr kvs | _ \<Rightarrow> dict_conv bi v)"

text \<open>Truthiness, as \<open>bool(x)\<close> computes it; both zeros of a float are false.\<close>

definition py_bool :: "json \<Rightarrow> bool" where
  "py_bool v =
     (case v of
        JNull \<Rightarrow> False
      | JBool b \<Rightarrow> b
      | JInt n \<Rightarrow> n \<noteq> 0
      | JFloat f \<Rightarrow> float_bits f \<noteq> 0 \<and> float_bits f \<noteq> 0x8000000000000000
      | JStr s \<Rightarrow> s \<noteq> []
      | JList xs \<Rightarrow> xs \<noteq> []
      | JObj kvs \<Rightarrow> kvs \<noteq> [])"

definition dict_get :: "pydict \<Rightarrow> string \<Rightarrow> json \<Rightarrow> json" where
  "dict_get d k dflt = (case map_of d k of None \<Rightarrow> dflt | Some v \<Rightarrow> v)"

text \<open>Sequencing of computations that may raise.\<close>

definition bind_err :: "error + 'a \<Rightarrow> ('a \<Rightarrow> error + 'b) \<Rightarrow> error + 'b" where
  "bind_err m f = (case m of Inl e \<Rightarrow> Inl e | Inr x \<Rightarrow> f x)"

fun map_err :: "('a \<Rightarrow> error + 'b) \<Rightarrow> 'a list \<Rightarrow> error + 'b list" where
  "map_err f [] = Inr []"
| "map_err f (x # xs) =
     bind_err (f x) (\<lambda>y. bind_err (map_err f xs) (\<lambda>ys. Inr (y # ys)))"

subsection \<open>\<open>to_dict\<close> and \<open>from_dict\<close>\<close>

definition float_m16 :: pyfloat where
  "float_m16 = PyFloat 0xC030000000000000"

definition settings_to_dict :: "ProjectSettings \<Rightarrow> json" where
  "settings_to_dict s =
     JObj ([(''sample_rate'', JInt (sample_rate s)),
            (''loudness_lufs'', JFloat (loudness_lufs s)),
            (''model_name'', JStr (model_name s)),
            (''attention_type'', JStr (attention_type s)),
            (''global_seed'', JInt (global_seed s)),
            (''crossfade_ms'', JInt (crossfade_ms s)),
            (''chunks_dir'', JStr (chunks_dir s)),
            (''final_mix'', JStr (final_mix s))]
           @ (if default_params s \<noteq> [] then [(''default_params'', JObj (default_params s))]
              else []))"

definition settings_from_dict :: "builtins \<Rightarrow> json \<Rightarrow> error + ProjectSettings" where
  "settings_from_dict bi payload =
     (case payload of
        JObj d \<Rightarrow>
          bind_err (py_int bi (dict_get d ''sample_rate'' (JInt 24000))) (\<lambda>sr.
          bind_err (py_float bi (dict_get d ''loudness_lufs'' (JFloat float_m16))) (\<lambda>lufs.
          bind_err (py_int bi (dict_get d ''global_seed'' (JInt 42))) (\<lambda>gs.
          bind_err (py_int bi (dict_get d ''crossfade_ms'' (JInt 40))) (\<lambda>cf.
          bind_err (py_dict bi (dict_get d ''default_params'' (JObj []))) (\<lambda>dp.
          Inr \<lparr>sample_rate = sr,
               loudness_lufs = lufs,
               model_name = py_str bi (dict_get d ''model_name'' (JStr ''VibeVoice-Large'')),
               attention_type = py_str bi (dict_get d ''attention_type'' (JStr ''auto'')),
               global_seed = gs,
               crossfade_ms = cf,
               chunks_dir = py_str bi (dict_get d ''chunks_dir'' (JStr ''chunks'')),
               final_mix = py_str bi (dict_get d ''final_mix'' (JStr ''final_mix.flac'')),
               default_params = dp\<rparr>)))))
      | _ \<Rightarrow> Inl AttributeError)"

definition chunk_to_dict :: "ChunkData \<Rightarrow> json" where
  "chunk_to_dict c =
     JObj [(''index'', JInt (index c)),
           (''filename'', JStr (filename c)),
           (''text'', JStr (text c)),
           (''char_start'', JInt (char_start c)),
           (''char_end'', JInt (char_end c)),
           (''t_start_ms'', JInt (t_start_ms c)),
           (''duration_ms'', JInt (duration_ms c)),
           (''seed'', JInt (seed c)),
           (''params'', JObj (params c)),
           (''speaker_id'', JInt (speaker_id c))]"

text \<open>
  \<open>payload["index"]\<close> raises \<open>KeyError\<close> on a dict without the key and \<open>TypeError\<close> on
  a value that is not a dict.
\<close>

definition subscript :: "json \<Rightarrow> string \<Rightarrow> error + json" where
  "subscript payload k =
     (case payload of
        JObj d \<Rightarrow> (case map_of d k of None \<Rightarrow> Inl KeyError | Some v \<Rightarrow> Inr v)
      | _ \<Rightarrow> Inl TypeError)"

definition chunk_from_dict :: "builtins \<Rightarrow> json \<Rightarrow> error + ChunkData" where
  "chunk_from_dict bi payload =
     bind_err (subscript payload ''index'') (\<lambda>iv.
     bind_err (py_int bi iv) (\<lambda>idx.
     bind_err (subscript payload ''filename'') (\<lambda>fv.
     (case payload of
        JObj d \<Rightarrow>
          bind_err (py_int bi (dict_get d ''char_start'' (JInt 0))) (\<lambda>cs.
          bind_err (py_int bi (dict_get d ''char_end'' (JInt 0))) (\<lambda>ce.
          bind_err (py_int bi (dict_get d ''t_start_ms'' (JInt 0))) (\<lambda>ts.
          bind_err (py_int bi (dict_get d ''duration_ms'' (JInt 0))) (\<lambda>dur.
          bind_err (py_int bi (dict_get d ''seed'' (JInt 0))) (\<lambda>sd.
          bind_err (py_dict bi (dict_get d ''params'' (JObj []))) (\<lambda>ps.
          bind_err (py_int bi (dict_get d ''speaker_id'' (JInt 0))) (\<lambda>sp.
          Inr \<lparr>index = idx,
               filename = py_str bi fv,
               text = py_str bi (dict_get d ''text'' (JStr [])),
               char_start = cs,
               char_end = ce,
               t_start_ms = ts,
               duration_ms = dur,
               seed = sd,
               params = ps,
               speaker_id = sp\<rparr>)))))))
      | _ \<Rightarrow> Inl AttributeError))))"

definition project_to_dict :: "ProjectData \<Rightarrow> json" where
  "project_to_dict project =
     JObj [(''project'', settings_to_dict (settings project)),
           (''chunks'', JList (map chunk_to_dict (sort_key index (chunks project))))]"

definition get_chunk :: "ProjectData \<Rightarrow> int \<Rightarrow> ChunkData option" where
  "get_chunk project idx = find (\<lambda>c. index c = idx) (chunks project)"

definition add_chunk :: "ProjectData \<Rightarrow> ChunkData \<Rightarrow> ProjectData" where
  "add_chunk project chunk =
     (let kept = (case get_chunk project (index chunk) of
                    None \<Rightarrow> chunks project
                  | Some existing \<Rightarrow> remove1 existing (chunks project))
      in project\<lparr>chunks := sort_key index (kept @ [chunk])\<rparr>)"

subsection \<open>Files\<close>

text \<open>
  The file system is the list of its files, each a path with its content: a waveform
  (what \<open>write_flac\<close> was given) or a JSON document (what \<open>json.dump\<close> was given and
  \<open>json.loads\<close> gives back). Directories are not tracked.
\<close>

datatype content = Audio audio | Doc json

type_synonym fs = "(path \<times> content) list"

definition fs_exists :: "fs \<Rightarrow> path \<Rightarrow> bool" where
  "fs_exists files p \<longleftrightarrow> map_of files p \<noteq> None"

definition fs_write :: "fs \<Rightarrow> path \<Rightarrow> content \<Rightarrow> fs" where
  "fs_write files p c = AList.update p c files"

definition fs_move :: "fs \<Rightarrow> path \<Rightarrow> path \<Rightarrow> fs" where
  "fs_move files src dst =
     (case map_of files src of
        None \<Rightarrow> files
      | Some c \<Rightarrow> AList.update dst c (AList.delete src files))"

definition project_json_path :: "ProjectData \<Rightarrow> path" where
  "project_json_path project = project_root project @ [''project.json'']"

definition chunks_directory :: "ProjectData \<Rightarrow> path" where
  "chunks_directory project = project_root project @ [chunks_dir (settings project)]"

definition archive_directory :: "ProjectData \<Rightarrow> path" where
  "archive_directory project = project_root project @ [''chunks_archive'']"

definition save_project :: "fs \<Rightarrow> ProjectData \<Rightarrow> path option \<Rightarrow> fs" where
  "save_project files project path_opt =
     (let target = (case path_opt of Some p \<Rightarrow> p | None \<Rightarrow> project_json_path project)
      in fs_write files target (Doc (project_to_dict project)))"

text \<open>
  Iterating \<open>payload.get("chunks", [])\<close>: a list gives its elements, a dict its keys, a
  string its characters; anything else is not iterable.
\<close>

definition iterate :: "json \<Rightarrow> error + json list" where
  "iterate v =
     (case v of
        JList xs \<Rightarrow> Inr xs
      | JObj d \<Rightarrow> Inr (map (\<lambda>kv. JStr (fst kv)) d)
      | JStr s \<Rightarrow> Inr (map (\<lambda>ch. JStr [ch]) s)
      | _ \<Rightarrow> Inl TypeError)"

definition project_from_payload :: "builtins \<Rightarrow> path \<Rightarrow> json \<Rightarrow> error + ProjectData" where
  "project_from_payload bi parent payload =
     (case payload of
        JObj d \<Rightarrow>
          bind_err (settings_from_dict bi (dict_get d ''project'' (JObj []))) (\<lambda>s.
          bind_err (iterate (dict_get d ''chunks'' (JList []))) (\<lambda>entries.
          bind_err (map_err (chunk_from_dict bi) entries) (\<lambda>cs.
          Inr \<lparr>project_root = parent, settings = s, chunks = sort_key index cs\<rparr>)))
      | _ \<Rightarrow> Inl AttributeError)"

definition load_project :: "builtins \<Rightarrow> fs \<Rightarrow> path \<Rightarrow> error + ProjectData" where
  "load_project bi files p =
     (case map_of files p of
        None \<Rightarrow> Inl FileNotFoundError
      | Some (Audio a) \<Rightarrow> Inl JSONDecodeError
      | Some (Doc payload) \<Rightarrow> project_from_payload bi (butlast p) payload)"

section \<open>Engine (\<open>engine.py\<close>)\<close>

record TTSOptions =
  cfg_scale :: pyfloat
  diffusion_steps :: int
  use_sampling :: bool
  temperature :: pyfloat
  top_p :: pyfloat

definition as_dict :: "TTSOptions \<Rightarrow> pydict" where
  "as_dict opts =
     [(''cfg_scale'', JFloat (cfg_scale opts)),
      (''diffusion_steps'', JInt (diffusion_steps opts)),
      (''use_sampling'', JBool (use_sampling opts)),
      (''temperature'', JFloat (temperature opts)),
      (''top_p'', JFloat (top_p opts))]"

text \<open>The float literals \<open>1.3\<close> and \<open>0.95\<close>.\<close>

definition float_1_3 :: pyfloat where
  "float_1_3 = PyFloat 0x3FF4CCCCCCCCCCCD"

definition float_0_95 :: pyfloat where
  "float_0_95 = PyFloat 0x3FEE666666666666"

definition default_tts_options :: "builtins \<Rightarrow> ProjectSettings \<Rightarrow> error + TTSOptions" where
  "default_tts_options bi s =
     (let defaults = default_params s
      in bind_err (py_float bi (dict_get defaults ''cfg_scale'' (JFloat float_1_3))) (\<lambda>cfg.
         bind_err (py_int bi (dict_get defaults ''diffusion_steps'' (JInt 20))) (\<lambda>steps.
         bind_err (py_float bi (dict_get defaults ''temperature'' (JFloat float_0_95))) (\<lambda>temp.
         bind_err (py_float bi (dict_get defaults ''top_p'' (JFloat float_0_95))) (\<lambda>tp.
         Inr \<lparr>cfg_scale = cfg,
              diffusion_steps = steps,
              use_sampling = py_bool (dict_get defaults ''use_sampling'' (JBool False)),
              temperature = temp,
              top_p = tp\<rparr>)))))"

subsection \<open>Text segmentation\<close>

text \<open>
  Characters that \<open>str.strip()\<close> removes (\<open>str.isspace\<close>), among the code points below
  256 that a \<open>char\<close> holds.
\<close>

definition py_isspace :: "char \<Rightarrow> bool" where
  "py_isspace c \<longleftrightarrow>
     c \<in> set [CHR 0x09, CHR 0x0A, CHR 0x0B, CHR 0x0C, CHR 0x0D, CHR 0x1C, CHR 0x1D,
              CHR 0x1E, CHR 0x1F, CHR 0x20, CHR 0x85, CHR 0xA0]"

definition strip :: "string \<Rightarrow> string" where
  "strip s = rev (dropWhile py_isspace (rev (dropWhile py_isspace s)))"

text \<open>
  \<open>s.find(sub, start)\<close> with \<open>start \<ge> 0\<close>: the lowest position at or after \<open>start\<close>
  where \<open>sub\<close> occurs in \<open>s\<close>; \<open>None\<close> stands for \<open>-1\<close>.
\<close>

definition py_find :: "string \<Rightarrow> string \<Rightarrow> nat \<Rightarrow> nat option" where
  "py_find s sub start =
     find (\<lambda>i. take (length sub) (drop i s) = sub) [start..<length s + 1 - length sub]"

fun locate_chunks :: "string \<Rightarrow> nat \<Rightarrow> string list \<Rightarrow> (string \<times> nat \<times> nat) list" where
  "locate_chunks script_text cursor [] = []"
| "locate_chunks script_text cursor (raw # raws) =
     (let chunk_text = strip raw
      in if chunk_text = [] then locate_chunks script_text cursor raws
         else
           let idx = (case py_find script_text chunk_text cursor of
                        Some i \<Rightarrow> i
                      | None \<Rightarrow>
                          (case py_find script_text chunk_text 0 of
                             Some i \<Rightarrow> i
                           | None \<Rightarrow> cursor));
               start = idx;
               end = start + length chunk_text
           in (chunk_text, start, end) # locate_chunks script_text end raws)"

text \<open>
  \<open>BaseVibeVoiceNode._split_text_into_chunks\<close> is not part of these sources: the model
  takes it as the parameter \<open>split\<close>.
\<close>

type_synonym splitter = "string \<Rightarrow> int \<Rightarrow> error + string list"

definition chunk_script ::
  "splitter \<Rightarrow> string \<Rightarrow> int \<Rightarrow> error + (string \<times> nat \<times> nat) list" where
  "chunk_script split script_text max_words =
     bind_err (split script_text max_words) (\<lambda>raw_chunks.
       Inr (locate_chunks script_text 0 raw_chunks))"

subsection \<open>Archive\<close>

text \<open>\<open>str(n)\<close> and \<open>f"{n:03d}"\<close> for a number that is not negative.\<close>

definition digit_char :: "nat \<Rightarrow> char" where
  "digit_char d = char_of (48 + d)"

fun digits10 :: "nat \<Rightarrow> string" where
  "digits10 n = (if n < 10 then [digit_char n] else digits10 (n div 10) @ [digit_char (n mod 10)])"

declare digits10.simps [simp del]

definition format_03d :: "nat \<Rightarrow> string" where
  "format_03d n = replicate (3 - length (digits10 n)) (CHR ''0'') @ digits10 n"

text \<open>
  \<open>Path.stem\<close>: the final component without its last suffix; a dot that is the first or
  the last character does not start a suffix.
\<close>

definition rfind_dot :: "string \<Rightarrow> nat option" where
  "rfind_dot name = find (\<lambda>i. name ! i = CHR ''.'') (rev [0..<length name])"

definition path_stem :: "string \<Rightarrow> string" where
  "path_stem name =
     (case rfind_dot name of
        Some i \<Rightarrow> if 0 < i \<and> i < length name - 1 then take i name else name
      | None \<Rightarrow> name)"

text \<open>
  \<open>archive_dir.glob(pattern)\<close> lists the files of the directory whose name matches the
  pattern. The matching of a name against a pattern is \<open>pathlib\<close>'s: the model takes
  it as the parameter \<open>gm\<close>.
\<close>

type_synonym matcher = "string \<Rightarrow> string \<Rightarrow> bool"

definition fs_glob :: "matcher \<Rightarrow> fs \<Rightarrow> path \<Rightarrow> string \<Rightarrow> path list" where
  "fs_glob gm files dir pattern =
     filter (\<lambda>p. p \<noteq> [] \<and> butlast p = dir \<and> gm pattern (last p)) (map fst files)"

definition archive_name :: "string \<Rightarrow> nat \<Rightarrow> string" where
  "archive_name stem version = stem @ ''__v'' @ digits10 version @ ''.flac''"

definition archive_chunk ::
  "matcher \<Rightarrow> fs \<Rightarrow> ProjectData \<Rightarrow> ChunkData \<Rightarrow> path option \<times> fs" where
  "archive_chunk gm files project chunk =
     (let source = chunks_directory project @ [filename chunk]
      in if \<not> fs_exists files source then (None, files)
         else
           let archive_dir = archive_directory project;
               stem = path_stem (filename chunk);
               existing = fs_glob gm files archive_dir (stem @ ''__v*.flac'');
               version = length existing + 1;
               destination = archive_dir @ [archive_name stem version]
           in (Some destination, fs_move files source destination))"

subsection \<open>Generation\<close>

text \<open>
  The renderer (\<open>ChunkRenderer.render_text\<close> on top of the external model, or the mock)
  is a parameter: from the settings, the options, the mock flag, the text, the seed and
  the overrides it gives a waveform or raises.
\<close>

type_synonym renderer =
  "ProjectSettings \<Rightarrow> TTSOptions \<Rightarrow> bool \<Rightarrow> string \<Rightarrow> int \<Rightarrow> pydict option \<Rightarrow> error + audio"

definition clamp0 :: "int \<Rightarrow> int" where
  "clamp0 x = (if x < 0 then 0 else x)"

fun generate_loop ::
  "renderer \<Rightarrow> TTSOptions \<Rightarrow> bool \<Rightarrow> (nat \<times> string \<times> nat \<times> nat) list \<Rightarrow>
   ProjectData \<Rightarrow> int \<Rightarrow> fs \<Rightarrow> (error + ProjectData) \<times> fs" where
  "generate_loop render opts mock [] project next_start files = (Inr project, files)"
| "generate_loop render opts mock ((idx, chunk_text, cstart, cend) # rest) project next_start files =
     (let s = settings project;
          sd = global_seed s + int idx - 1
      in case render s opts mock chunk_text sd None of
           Inl e \<Rightarrow> (Inl e, files)
         | Inr wave \<Rightarrow>
             (case calculate_duration_ms wave (sample_rate s) of
                Inl e \<Rightarrow> (Inl e, files)
              | Inr dur \<Rightarrow>
                  let fname = ''chunk_'' @ format_03d idx @ ''.flac'';
                      files1 = fs_write files (chunks_directory project @ [fname]) (Audio wave);
                      chunk = \<lparr>index = int idx,
                               filename = fname,
                               text = chunk_text,
                               char_start = int cstart,
                               char_end = int cend,
                               t_start_ms = next_start,
                               duration_ms = dur,
                               seed = sd,
                               params = as_dict opts,
                               speaker_id = 0\<rparr>;
                      project' = add_chunk project chunk;
                      nxt = clamp0 (t_start_ms chunk + duration_ms chunk - crossfade_ms s);
                      files2 = save_project files1 project' None
                  in generate_loop render opts mock rest project' nxt files2))"

definition enumerate1 :: "'a list \<Rightarrow> (nat \<times> 'a) list" where
  "enumerate1 xs = zip [1..<Suc (length xs)] xs"

definition generate_project ::
  "splitter \<Rightarrow> renderer \<Rightarrow> fs \<Rightarrow> string \<Rightarrow> path \<Rightarrow> ProjectSettings \<Rightarrow> TTSOptions \<Rightarrow> int \<Rightarrow>
   bool \<Rightarrow> (error + ProjectData) \<times> fs" where
  "generate_project split render files script_text root_dir s tts_options max_words mock =
     (let s' = s\<lparr>default_params := as_dict tts_options\<rparr>;
          project = \<lparr>project_root = root_dir, settings = s', chunks = []\<rparr>
      in case chunk_script split script_text max_words of
           Inl e \<Rightarrow> (Inl e, files)
         | Inr chunk_specs \<Rightarrow>
             if chunk_specs = [] then (Inl ValueError, files)
             else generate_loop render tts_options mock (enumerate1 chunk_specs) project 0 files)"

subsection \<open>Replacement\<close>

text \<open>\<open>load_audio\<close> reads and resamples through external libraries: a parameter.\<close>

type_synonym audio_loader = "fs \<Rightarrow> path \<Rightarrow> int \<Rightarrow> error + audio"

definition merge_overrides :: "pydict \<Rightarrow> pydict option \<Rightarrow> pydict" where
  "merge_overrides ps overrides =
     (case overrides of
        None \<Rightarrow> ps
      | Some ov \<Rightarrow> fold (\<lambda>kv. AList.update (fst kv) (snd kv)) (filter (\<lambda>kv. snd kv \<noteq> JNull) ov) ps)"

definition render_replacement ::
  "renderer \<Rightarrow> audio_loader \<Rightarrow> fs \<Rightarrow> ProjectSettings \<Rightarrow> TTSOptions \<Rightarrow> ChunkData \<Rightarrow> string \<Rightarrow>
   int option \<Rightarrow> pydict option \<Rightarrow> path option \<Rightarrow> bool \<Rightarrow> error + (audio \<times> ChunkData)" where
  "render_replacement render load_audio files s defaults chunk mode seed_opt overrides import_path mock =
     (if mode = ''tts'' then
        let chunk_seed = (case seed_opt of Some sd \<Rightarrow> sd | None \<Rightarrow> seed chunk)
        in bind_err (render s defaults mock (text chunk) chunk_seed overrides) (\<lambda>wave.
             Inr (wave, chunk\<lparr>seed := chunk_seed,
                              params := merge_overrides (as_dict defaults) overrides\<rparr>))
      else if mode = ''import'' then
        (case import_path of
           None \<Rightarrow> Inl ValueError
         | Some ip \<Rightarrow>
             bind_err (load_audio files ip (sample_rate s)) (\<lambda>wave.
               Inr (wave, chunk\<lparr>seed := (case seed_opt of Some sd \<Rightarrow> sd | None \<Rightarrow> seed chunk),
                                params := AList.update ''mode'' (JStr ''import'') (params chunk)\<rparr>)))
      else Inl ValueError)"

text \<open>Lines 278 to 285 of \<open>replace_chunk\<close>: the new waveform and the stored duration.\<close>

definition reconcile_duration ::
  "stretcher \<Rightarrow> string \<Rightarrow> int \<Rightarrow> ChunkData \<Rightarrow> audio \<Rightarrow> error + (audio \<times> ChunkData)" where
  "reconcile_duration stretch timeline_mode sr chunk wave =
     (let original_duration = duration_ms chunk
      in bind_err (calculate_duration_ms wave sr) (\<lambda>new_duration.
           if timeline_mode = ''locked'' \<and> 0 < original_duration then
             bind_err (time_stretch_to_duration stretch wave sr original_duration) (\<lambda>wave'.
               Inr (wave', chunk\<lparr>duration_ms := original_duration\<rparr>))
           else Inr (wave, chunk\<lparr>duration_ms := new_duration\<rparr>)))"

text \<open>
  The chunk is an object of \<open>project.chunks\<close>, changed in place: the model writes it back
  at the position where \<open>get_chunk\<close> found it and returns the chunk at that position.
\<close>

definition chunk_position :: "ProjectData \<Rightarrow> int \<Rightarrow> nat" where
  "chunk_position project idx = length (takeWhile (\<lambda>c. index c \<noteq> idx) (chunks project))"

definition replace_chunk ::
  "builtins \<Rightarrow> matcher \<Rightarrow> renderer \<Rightarrow> audio_loader \<Rightarrow> stretcher \<Rightarrow> fs \<Rightarrow> path \<Rightarrow> int \<Rightarrow>
   string \<Rightarrow> string \<Rightarrow> int option \<Rightarrow> pydict option \<Rightarrow> path option \<Rightarrow> bool \<Rightarrow>
   (error + ChunkData) \<times> fs" where
  "replace_chunk bi gm render load_audio stretch files project_path idx mode timeline_mode
       seed_opt overrides import_path mock =
     (case load_project bi files project_path of
        Inl e \<Rightarrow> (Inl e, files)
      | Inr project \<Rightarrow>
          (case get_chunk project idx of
             None \<Rightarrow> (Inl ValueError, files)
           | Some chunk \<Rightarrow>
               let files1 = snd (archive_chunk gm files project chunk);
                   target = chunks_directory project @ [filename chunk];
                   s = settings project
               in case bind_err (default_tts_options bi s) (\<lambda>defaults.
                         bind_err (render_replacement render load_audio files1 s defaults chunk
                                     mode seed_opt overrides import_path mock) (\<lambda>(wave, chunk1).
                           reconcile_duration stretch timeline_mode (sample_rate s) chunk1 wave)) of
                    Inl e \<Rightarrow> (Inl e, files1)
                  | Inr (wave', chunk2) \<Rightarrow>
                      let files2 = fs_write files1 target (Audio wave');
                          pos = chunk_position project idx;
                          project1 = project\<lparr>chunks := (chunks project)[pos := chunk2]\<rparr>;
                          project2 = (if timeline_mode = ''free'' then recalculate_timeline project1
                                      else project1);
                          files3 = save_project files2 project2 None
                      in (Inr (chunks project2 ! pos), files3)))"

section \<open>Example values\<close>

definition example_settings :: "int \<Rightarrow> ProjectSettings" where
  "example_settings cf =
     \<lparr>sample_rate = 24000, loudness_lufs = float_m16, model_name = ''VibeVoice-Large'',
      attention_type = ''auto'', global_seed = 42, crossfade_ms = cf, chunks_dir = ''chunks'',
      final_mix = ''final_mix.flac'', default_params = []\<rparr>"

definition example_chunk :: "int \<Rightarrow> int \<Rightarrow> int \<Rightarrow> ChunkData" where
  "example_chunk i t d =
     \<lparr>index = i, filename = ''chunk_'' @ format_03d (nat i) @ ''.flac'', text = ''Hello.'',
      char_start = 0, char_end = 6, t_start_ms = t, duration_ms = d, seed = 42 + i - 1,
      params = [], speaker_id = 0\<rparr>"

definition example_project :: "int \<Rightarrow> ChunkData list \<Rightarrow> ProjectData" where
  "example_project cf cs =
     \<lparr>project_root = [''proj''], settings = example_settings cf, chunks = cs\<rparr>"

definition example_stretch :: stretcher where
  "example_stretch data rate = Inr data"

section \<open>Predicates of the statements\<close>

text \<open>
  A timeline without gaps: every chunk of the list starts no later than the end of the
  chunk before it.
\<close>

fun gap_free :: "ChunkData list \<Rightarrow> bool" where
  "gap_free (a # b # cs) \<longleftrightarrow>
     t_start_ms b \<le> t_start_ms a + duration_ms a \<and> gap_free (b # cs)"
| "gap_free cs \<longleftrightarrow> True"

text \<open>
  The start that the segmentation loop gives a span: the first occurrence of the text at
  or after the cursor, else its first occurrence anywhere, else the cursor. A list of
  spans follows the cursor when each span starts there and the cursor moves to its end.
\<close>

definition located_start :: "string \<Rightarrow> string \<Rightarrow> nat \<Rightarrow> nat" where
  "located_start script_text chunk_text cursor =
     (case py_find script_text chunk_text cursor of
        Some i \<Rightarrow> i
      | None \<Rightarrow> (case py_find script_text chunk_text 0 of Some i \<Rightarrow> i | None \<Rightarrow> cursor))"

fun spans_from :: "string \<Rightarrow> nat \<Rightarrow> (string \<times> nat \<times> nat) list \<Rightarrow> bool" where
  "spans_from script_text cursor [] \<longleftrightarrow> True"
| "spans_from script_text cursor ((t, s, e) # rest) \<longleftrightarrow>
     t \<noteq> [] \<and> s = located_start script_text t cursor \<and> e = s + length t \<and>
     spans_from script_text e rest"

text \<open>
  A script of five two-word sentences with a line break after the first, and a splitter
  that returns them in pairs joined by a space.
\<close>

definition example_script :: string where
  "example_script = ''A.'' @ [CHR 0x0A] @ ''B. C. A. B.''"

definition example_split :: splitter where
  "example_split script_text max_words = Inr [''A. B.'', ''C. A.'', ''B.'']"

text \<open>
  A renderer that gives 24 silent samples for each character, the options of the command
  line defaults, and the project generated with them from the example script.
\<close>

definition example_render :: renderer where
  "example_render s opts mock chunk_text sd overrides =
     Inr (replicate (24 * length chunk_text) 0)"

definition example_options :: TTSOptions where
  "example_options =
     \<lparr>cfg_scale = float_1_3, diffusion_steps = 20, use_sampling = False,
      temperature = float_0_95, top_p = float_0_95\<rparr>"

definition example_generated :: "(error + ProjectData) \<times> fs" where
  "example_generated =
     generate_project example_split example_render [] example_script [''proj'']
       (example_settings 40) example_options 2 True"

text \<open>
  A matcher in which \<open>*\<close> stands for any run of characters and every other character
  for itself, and a file system that holds the audio of one chunk.
\<close>

fun star_match :: matcher where
  "star_match [] [] \<longleftrightarrow> True"
| "star_match [] (c # s) \<longleftrightarrow> False"
| "star_match (p # ps) [] \<longleftrightarrow> p = CHR ''*'' \<and> star_match ps []"
| "star_match (p # ps) (c # s) \<longleftrightarrow>
     (if p = CHR ''*'' then star_match ps (c # s) \<or> star_match (p # ps) s
      else p = c \<and> star_match ps s)"

definition example_files :: fs where
  "example_files = [([''proj'', ''chunks'', ''chunk_001.flac''], Audio [1, 2, 3])]"

text \<open>
  A document whose fields, where present, have the type that \<open>to_dict\<close> writes, and the
  value that such a field holds or else its default.
\<close>

definition is_int :: "json \<Rightarrow> bool" where
  "is_int v = (case v of JInt n \<Rightarrow> True | _ \<Rightarrow> False)"

definition is_float :: "json \<Rightarrow> bool" where
  "is_float v = (case v of JFloat f \<Rightarrow> True | _ \<Rightarrow> False)"

definition is_str :: "json \<Rightarrow> bool" where
  "is_str v = (case v of JStr s \<Rightarrow> True | _ \<Rightarrow> False)"

definition is_obj :: "json \<Rightarrow> bool" where
  "is_obj v = (case v of JObj d \<Rightarrow> True | _ \<Rightarrow> False)"

definition field_ok :: "(json \<Rightarrow> bool) \<Rightarrow> pydict \<Rightarrow> string \<Rightarrow> bool" where
  "field_ok ty d k = (case map_of d k of None \<Rightarrow> True | Some v \<Rightarrow> ty v)"

definition int_field :: "pydict \<Rightarrow> string \<Rightarrow> int \<Rightarrow> int" where
  "int_field d k dflt = (case map_of d k of Some (JInt n) \<Rightarrow> n | _ \<Rightarrow> dflt)"

definition float_field :: "pydict \<Rightarrow> string \<Rightarrow> pyfloat \<Rightarrow> pyfloat" where
  "float_field d k dflt = (case map_of d k of Some (JFloat f) \<Rightarrow> f | _ \<Rightarrow> dflt)"

definition str_field :: "pydict \<Rightarrow> string \<Rightarrow> string \<Rightarrow> string" where
  "str_field d k dflt = (case map_of d k of Some (JStr s) \<Rightarrow> s | _ \<Rightarrow> dflt)"

definition obj_field :: "pydict \<Rightarrow> string \<Rightarrow> pydict \<Rightarrow> pydict" where
  "obj_field d k dflt = (case map_of d k of Some (JObj kvs) \<Rightarrow> kvs | _ \<Rightarrow> dflt)"

definition settings_fields_typed :: "pydict \<Rightarrow> bool" where
  "settings_fields_typed d \<longleftrightarrow>
     field_ok is_int d ''sample_rate'' \<and> field_ok is_float d ''loudness_lufs'' \<and>
     field_ok is_str d ''model_name'' \<and> field_ok is_str d ''attention_type'' \<and>
     field_ok is_int d ''global_seed'' \<and> field_ok is_int d ''crossfade_ms'' \<and>
     field_ok is_str d ''chunks_dir'' \<and> field_ok is_str d ''final_mix'' \<and>
     field_ok is_obj d ''default_params''"

definition chunk_fields_typed :: "pydict \<Rightarrow> bool" where
  "chunk_fields_typed d \<longleftrightarrow>
     map_of d ''index'' \<noteq> None \<and> field_ok is_int d ''index'' \<and>
     map_of d ''filename'' \<noteq> None \<and> field_ok is_str d ''filename'' \<and>
     field_ok is_str d ''text'' \<and> field_ok is_int d ''char_start'' \<and>
     field_ok is_int d ''char_end'' \<and> field_ok is_int d ''t_start_ms'' \<and>
     field_ok is_int d ''duration_ms'' \<and> field_ok is_int d ''seed'' \<and>
     field_ok is_obj d ''params'' \<and> field_ok is_int d ''speaker_id''"

text \<open>Built-ins that reject every value that needs a conversion.\<close>

definition example_builtins :: builtins where
  "example_builtins =
     \<lparr>int_conv = (\<lambda>v. Inl TypeError), float_conv = (\<lambda>v. Inl TypeError),
      str_conv = (\<lambda>v. ''None''), dict_conv = (\<lambda>v. Inl TypeError)\<rparr>"

text \<open>
  A renderer that gives five samples, a loader that finds no file, a project directory
  with the document of a one-chunk project and the chunk's audio, and the replacement of
  that chunk in locked mode with each of the two renderers.
\<close>

definition example_short_render :: renderer where
  "example_short_render s opts mock chunk_text sd overrides = Inr [1, 1, 1, 1, 1]"

definition example_loader :: audio_loader where
  "example_loader files p sr = Inl AudioReadError"

definition example_project_files :: "int \<Rightarrow> fs" where
  "example_project_files d =
     save_project example_files (example_project 40 [example_chunk 1 0 d]) None"

definition example_short_replacement :: "(error + ChunkData) \<times> fs" where
  "example_short_replacement =
     replace_chunk example_builtins star_match example_short_render example_loader example_stretch
       (example_project_files 1000) [''proj'', ''project.json''] 1 ''tts'' ''locked''
       None None None True"

definition example_replacement :: "(error + ChunkData) \<times> fs" where
  "example_replacement =
     replace_chunk example_builtins star_match example_render example_loader example_stretch
       (example_project_files 2) [''proj'', ''project.json''] 1 ''tts'' ''locked''
       None None None True"

section \<open>Timeline: non-negative starts and idempotence\<close>

lemma length_timeline_loop [simp]: "length (timeline_loop cf cur ps cs) = length cs"
  by (induction ps arbitrary: cur cs) (simp_all add: Let_def)

lemma set_sorted_positions [simp]: "set (sorted_positions cs) = {0..<length cs}"
  by (simp add: sorted_positions_def)

lemma distinct_sorted_positions [simp]: "distinct (sorted_positions cs)"
  by (simp add: sorted_positions_def)

lemma timeline_loop_shape:
  "distinct ps \<Longrightarrow> set ps \<subseteq> {0..<length cs} \<Longrightarrow>
   (ps \<noteq> [] \<longrightarrow> t_start_ms (timeline_loop cf cur ps cs ! hd ps) = max cur 0) \<and>
   (\<forall>k. Suc k < length ps \<longrightarrow>
      t_start_ms (timeline_loop cf cur ps cs ! (ps ! Suc k)) =
        max 0 (t_start_ms (timeline_loop cf cur ps cs ! (ps ! k)) + duration_ms (cs ! (ps ! k)) - cf)) \<and>
   (\<forall>j. j \<notin> set ps \<longrightarrow> timeline_loop cf cur ps cs ! j = cs ! j) \<and>
   (\<forall>j < length cs. (timeline_loop cf cur ps cs ! j)\<lparr>t_start_ms := 0\<rparr> = (cs ! j)\<lparr>t_start_ms := 0\<rparr>)"
proof (induction ps arbitrary: cur cs)
  case Nil
  then show ?case by simp
next
  case (Cons i ps)
  define t where "t = max cur 0"
  define cs' where "cs' = cs[i := (cs ! i)\<lparr>t_start_ms := t\<rparr>]"
  define cur' where "cur' = (if t + duration_ms (cs ! i) - cf < 0 then 0 else t + duration_ms (cs ! i) - cf)"
  define r where "r = timeline_loop cf cur' ps cs'"
  have r: "timeline_loop cf cur (i # ps) cs = r"
    by (simp add: r_def cur'_def cs'_def t_def Let_def)
  have i: "i < length cs" "i \<notin> set ps" "distinct ps" "set ps \<subseteq> {0..<length cs'}"
    using Cons.prems by (auto simp: cs'_def)
  note IH = Cons.IH [OF i(3) i(4), where cur = cur', folded r_def]
  have dur: "duration_ms (cs' ! j) = duration_ms (cs ! j)" for j
    by (cases "j = i") (use i(1) in \<open>auto simp: cs'_def\<close>)
  have ri: "r ! i = (cs ! i)\<lparr>t_start_ms := t\<rparr>"
    using IH i(1,2) by (simp add: cs'_def)
  have c1: "t_start_ms (r ! hd (i # ps)) = max cur 0"
    by (simp add: ri t_def)
  have c2: "t_start_ms (r ! ((i # ps) ! Suc k)) =
        max 0 (t_start_ms (r ! ((i # ps) ! k)) + duration_ms (cs ! ((i # ps) ! k)) - cf)"
    if "Suc k < length (i # ps)" for k
  proof (cases k)
    case 0
    then have "ps \<noteq> []" using that by auto
    then have "t_start_ms (r ! hd ps) = max cur' 0" using IH by simp
    moreover have "hd ps = ps ! 0" using \<open>ps \<noteq> []\<close> by (simp add: hd_conv_nth)
    ultimately show ?thesis using 0 by (simp add: ri cur'_def)
  next
    case (Suc k')
    then show ?thesis using IH that by (simp add: dur)
  qed
  have c3: "r ! j = cs ! j" if "j \<notin> set (i # ps)" for j
    using IH that by (simp add: cs'_def)
  have c4: "(r ! j)\<lparr>t_start_ms := 0\<rparr> = (cs ! j)\<lparr>t_start_ms := 0\<rparr>" if "j < length cs" for j
  proof -
    have "(r ! j)\<lparr>t_start_ms := 0\<rparr> = (cs' ! j)\<lparr>t_start_ms := 0\<rparr>"
      using IH that by (simp add: cs'_def)
    also have "\<dots> = (cs ! j)\<lparr>t_start_ms := 0\<rparr>"
      by (cases "j = i") (use that in \<open>auto simp: cs'_def\<close>)
    finally show ?thesis .
  qed
  show ?case unfolding r
    by (intro conjI allI impI; (rule c1 | rule c2 | rule c3 | rule c4); assumption?)
qed

lemma timeline_loop_agree:
  "length cs = length cs' \<Longrightarrow>
   \<forall>j < length cs. (cs ! j)\<lparr>t_start_ms := 0\<rparr> = (cs' ! j)\<lparr>t_start_ms := 0\<rparr> \<Longrightarrow>
   \<forall>j < length cs. j \<notin> set ps \<longrightarrow> cs ! j = cs' ! j \<Longrightarrow>
   set ps \<subseteq> {0..<length cs} \<Longrightarrow>
   timeline_loop cf cur ps cs = timeline_loop cf cur ps cs'"
proof (induction ps arbitrary: cur cs cs')
  case Nil
  then have "cs = cs'" by (intro nth_equalityI) simp_all
  then show ?case by simp
next
  case (Cons i ps)
  define t where "t = max cur 0"
  have i: "i < length cs" "i < length cs'" using Cons.prems by auto
  have eqi: "(cs ! i)\<lparr>t_start_ms := 0\<rparr> = (cs' ! i)\<lparr>t_start_ms := 0\<rparr>"
    using Cons.prems(2) i by simp
  have d: "duration_ms (cs ! i) = duration_ms (cs' ! i)"
    using arg_cong [OF eqi, of duration_ms] by simp
  have u: "(cs ! i)\<lparr>t_start_ms := t\<rparr> = (cs' ! i)\<lparr>t_start_ms := t\<rparr>"
    using arg_cong [OF eqi, of "t_start_ms_update (\<lambda>_. t)"] by simp
  let ?a = "cs[i := (cs ! i)\<lparr>t_start_ms := t\<rparr>]"
  let ?b = "cs'[i := (cs' ! i)\<lparr>t_start_ms := t\<rparr>]"
  have "timeline_loop cf c ps ?a = timeline_loop cf c ps ?b" for c
  proof (rule Cons.IH)
    show "length ?a = length ?b" using Cons.prems(1) by simp
    show "\<forall>j<length ?a. (?a ! j)\<lparr>t_start_ms := 0\<rparr> = (?b ! j)\<lparr>t_start_ms := 0\<rparr>"
      using Cons.prems(1,2) i by (auto simp: nth_list_update)
    show "\<forall>j<length ?a. j \<notin> set ps \<longrightarrow> ?a ! j = ?b ! j"
      using Cons.prems(1,3) i u by (auto simp: nth_list_update)
    show "set ps \<subseteq> {0..<length ?a}" using Cons.prems(4) by simp
  qed
  then show ?case by (simp add: Let_def t_def d)
qed

lemma insort_key_agree:
  "f x = g x \<Longrightarrow> \<forall>y\<in>set ys. f y = g y \<Longrightarrow> insort_key f x ys = insort_key g x ys"
  by (induction ys) simp_all

lemma sort_key_agree:
  "\<forall>x\<in>set xs. f x = g x \<Longrightarrow> sort_key f xs = sort_key g xs"
proof (induction xs)
  case Nil
  then show ?case by simp
next
  case (Cons x xs)
  then have "sort_key f xs = sort_key g xs" by simp
  moreover have "insort_key f x (sort_key g xs) = insort_key g x (sort_key g xs)"
    using Cons.prems by (intro insort_key_agree) simp_all
  ultimately show ?case by simp
qed

lemma sorted_positions_cong:
  assumes "map index cs = map index cs'"
  shows "sorted_positions cs = sorted_positions cs'"
proof -
  have l: "length cs = length cs'" using assms by (rule map_eq_imp_length_eq)
  have "index (cs ! i) = index (cs' ! i)" if "i < length cs" for i
    using arg_cong [OF assms, of "\<lambda>xs. xs ! i"] that l by simp
  then show ?thesis
    unfolding sorted_positions_def l [symmetric] by (intro sort_key_agree) simp
qed

lemma map_update_same:
  "f (g (cs ! i)) = f (cs ! i) \<Longrightarrow> map f (cs[i := g (cs ! i)]) = map f cs"
  by (cases "i < length cs") (simp_all add: map_update list_update_same_conv list_update_beyond)

lemma timeline_loop_index [simp]:
  "map index (timeline_loop cf cur ps cs) = map index cs"
  by (induction ps arbitrary: cur cs) (simp_all add: Let_def map_update_same)

lemma timeline_loop_duration [simp]:
  "map duration_ms (timeline_loop cf cur ps cs) = map duration_ms cs"
  by (induction ps arbitrary: cur cs) (simp_all add: Let_def map_update_same)

text \<open>
  C1 (amended). For every project and every crossfade setting, after
  \<open>recalculate_timeline\<close> every chunk has \<open>t_start_ms \<ge> 0\<close>: the first chunk in index
  order starts at 0, and every later one starts at the previous chunk's start plus its
  duration minus the crossfade, clamped to 0 when that is negative. The durations are
  left as they were, so \<open>duration_ms \<ge> 0\<close> holds afterwards for the chunks for which it
  held before.
\<close>

theorem recalculate_timeline_starts:
  "(\<forall>c \<in> set (chunks (recalculate_timeline p)). 0 \<le> t_start_ms c) \<and>
   map duration_ms (chunks (recalculate_timeline p)) = map duration_ms (chunks p) \<and>
   (chunks p \<noteq> [] \<longrightarrow>
      t_start_ms (chunks (recalculate_timeline p) ! hd (sorted_positions (chunks p))) = 0) \<and>
   (\<forall>k. Suc k < length (chunks p) \<longrightarrow>
      t_start_ms (chunks (recalculate_timeline p) ! (sorted_positions (chunks p) ! Suc k)) =
        max 0 (t_start_ms (chunks (recalculate_timeline p) ! (sorted_positions (chunks p) ! k))
               + duration_ms (chunks p ! (sorted_positions (chunks p) ! k))
               - crossfade_ms (settings p)))"
proof -
  define cf where "cf = crossfade_ms (settings p)"
  define ps where "ps = sorted_positions (chunks p)"
  define r where "r = timeline_loop cf 0 ps (chunks p)"
  have ps: "distinct ps" "set ps \<subseteq> {0..<length (chunks p)}" "set ps = {0..<length (chunks p)}"
    by (simp_all add: ps_def)
  have len: "length ps = length (chunks p)"
    by (simp add: ps_def sorted_positions_def)
  have r: "chunks (recalculate_timeline p) = r"
    by (simp add: recalculate_timeline_def r_def cf_def ps_def)
  note shape = timeline_loop_shape [OF ps(1,2), of cf 0, folded r_def]
  have hd0: "t_start_ms (r ! hd ps) = 0" if "chunks p \<noteq> []"
  proof -
    have "ps \<noteq> []" using that len by auto
    then show ?thesis using shape by simp
  qed
  have step: "t_start_ms (r ! (ps ! Suc k)) =
      max 0 (t_start_ms (r ! (ps ! k)) + duration_ms (chunks p ! (ps ! k)) - cf)"
    if "Suc k < length (chunks p)" for k
    using shape that len by simp
  have nonneg: "0 \<le> t_start_ms (r ! (ps ! k))" if "k < length ps" for k
  proof (cases k)
    case 0
    then have "ps \<noteq> []" using that by auto
    then have "ps ! k = hd ps" using 0 by (simp add: hd_conv_nth)
    moreover have "chunks p \<noteq> []" using that len by auto
    ultimately show ?thesis using hd0 by simp
  next
    case (Suc k')
    then show ?thesis using step [of k'] that len by simp
  qed
  have all: "0 \<le> t_start_ms c" if cin: "c \<in> set r" for c
  proof -
    obtain j where j: "j < length r" "r ! j = c"
      using cin unfolding in_set_conv_nth by blast
    then have "j \<in> set ps" using ps(3) by (simp add: r_def)
    then obtain k where "k < length ps" "ps ! k = j"
      unfolding in_set_conv_nth by blast
    then show ?thesis using nonneg [of k] j by auto
  qed
  have dur: "map duration_ms r = map duration_ms (chunks p)"
    by (simp add: r_def)
  show ?thesis
    unfolding r using all dur hd0 step
    by (simp add: ps_def [symmetric] cf_def [symmetric])
qed

theorem recalculate_timeline_starts_witness:
  "chunks (example_project 100
             [example_chunk 3 5 1000, example_chunk 1 7 30, example_chunk 2 9 1000]) \<noteq> [] \<and>
   map t_start_ms (chunks (recalculate_timeline (example_project 100
             [example_chunk 3 5 1000, example_chunk 1 7 30, example_chunk 2 9 1000]))) = [900, 0, 0] \<and>
   map duration_ms (chunks (recalculate_timeline (example_project 100
             [example_chunk 3 5 1000, example_chunk 1 7 30, example_chunk 2 9 1000]))) = [1000, 30, 1000] \<and>
   t_start_ms (chunks (recalculate_timeline (example_project 100
             [example_chunk 3 5 1000, example_chunk 1 7 30, example_chunk 2 9 1000]))
        ! hd (sorted_positions [example_chunk 3 5 1000, example_chunk 1 7 30, example_chunk 2 9 1000])) = 0"
proof -
  let ?cs = "[example_chunk 3 5 1000, example_chunk 1 7 30, example_chunk 2 9 1000]"
  let ?p = "example_project 100 ?cs"
  have c: "chunks ?p = ?cs" by (simp add: example_project_def)
  have t: "map t_start_ms (chunks (recalculate_timeline ?p)) = [900, 0, 0]" by code_simp
  have d: "map duration_ms ?cs = [1000, 30, 1000]" by (simp add: example_chunk_def)
  show ?thesis
    using recalculate_timeline_starts [of ?p] t d by (simp add: c)
qed

text \<open>
  The claim as stated also promises \<open>duration_ms \<ge> 0\<close> for every project: a chunk that
  is stored with a negative duration keeps it.
\<close>

theorem recalculate_timeline_duration_counterexample:
  "\<not> 0 \<le> duration_ms (chunks (recalculate_timeline
            (example_project 40 [example_chunk 1 0 (- 5)])) ! 0)"
  by code_simp

text \<open>
  C2. \<open>recalculate_timeline\<close> is idempotent: running it on its own result changes
  nothing, so every chunk keeps the \<open>t_start_ms\<close> of the first run.
\<close>

theorem recalculate_timeline_idempotent:
  "recalculate_timeline (recalculate_timeline p) = recalculate_timeline p"
proof -
  define cf where "cf = crossfade_ms (settings p)"
  define ps where "ps = sorted_positions (chunks p)"
  define r where "r = timeline_loop cf 0 ps (chunks p)"
  have ps: "distinct ps" "set ps \<subseteq> {0..<length (chunks p)}" "set ps = {0..<length (chunks p)}"
    by (simp_all add: ps_def)
  have ps': "sorted_positions r = ps"
    unfolding ps_def r_def by (rule sorted_positions_cong) simp
  have "timeline_loop cf 0 ps r = timeline_loop cf 0 ps (chunks p)"
  proof (rule timeline_loop_agree)
    show "length r = length (chunks p)" by (simp add: r_def)
    show "\<forall>j<length r. (r ! j)\<lparr>t_start_ms := 0\<rparr> = (chunks p ! j)\<lparr>t_start_ms := 0\<rparr>"
      using timeline_loop_shape [OF ps(1,2), of cf 0] by (simp add: r_def)
    show "\<forall>j<length r. j \<notin> set ps \<longrightarrow> r ! j = chunks p ! j"
      by (simp add: ps(3) r_def)
    show "set ps \<subseteq> {0..<length r}" using ps(2) by (simp add: r_def)
  qed
  then show ?thesis
    by (simp add: recalculate_timeline_def ps' cf_def [symmetric] ps_def [symmetric] r_def [symmetric])
qed

section \<open>Crossfade\<close>

lemma length_fade [simp]: "length (fade n) = n"
  by (simp add: fade_def)

lemma length_fade_out [simp]: "length (fade_out n) = n"
  by (simp add: fade_out_def)

lemma length_fade_in [simp]: "length (fade_in n) = n"
  by (simp add: fade_in_def)

text \<open>
  C4. For \<open>crossfade_samples \<ge> 0\<close> the crossfaded result has
  \<open>len(first) + len(second) - min(crossfade_samples, len(first), len(second))\<close> samples;
  when \<open>crossfade_samples \<le> 0\<close> or \<open>first\<close> is empty the result is the plain
  concatenation. \<open>stitch_chunks\<close> on two waveforms is this crossfade with
  \<open>round(sample_rate * crossfade_ms / 1000)\<close> samples.
\<close>

theorem cosine_crossfade_length:
  "(0 \<le> crossfade_samples \<longrightarrow>
      length (cosine_crossfade first second crossfade_samples) =
        length first + length second
          - min (nat crossfade_samples) (min (length first) (length second))) \<and>
   (crossfade_samples \<le> 0 \<or> first = [] \<longrightarrow>
      cosine_crossfade first second crossfade_samples = first @ second) \<and>
   stitch_chunks [first, second] sr cf_ms =
     cosine_crossfade first second (round_half_even_div (sr * cf_ms) 1000)"
proof (intro conjI impI)
  assume "0 \<le> crossfade_samples"
  show "length (cosine_crossfade first second crossfade_samples) =
        length first + length second
          - min (nat crossfade_samples) (min (length first) (length second))"
  proof (cases "crossfade_samples \<le> 0 \<or> length first = 0")
    case True
    then show ?thesis by (auto simp: cosine_crossfade_def)
  next
    case False
    define n where "n = min (nat crossfade_samples) (min (length first) (length second))"
    have n: "n \<le> length first" "n \<le> length second" by (simp_all add: n_def)
    show ?thesis
    proof (cases "n = 0")
      case True
      then show ?thesis using False by (simp add: cosine_crossfade_def n_def [symmetric])
    next
      case nz: False
      have "length (cosine_crossfade first second crossfade_samples) =
            (length first - n) + n + (length second - n)"
        using False nz n by (simp add: cosine_crossfade_def n_def [symmetric] Let_def)
      then show ?thesis using n by (simp add: n_def [symmetric])
    qed
  qed
next
  assume "crossfade_samples \<le> 0 \<or> first = []"
  then show "cosine_crossfade first second crossfade_samples = first @ second"
    by (auto simp: cosine_crossfade_def)
next
  show "stitch_chunks [first, second] sr cf_ms =
     cosine_crossfade first second (round_half_even_div (sr * cf_ms) 1000)"
    by (simp add: stitch_chunks_def)
qed

theorem cosine_crossfade_length_witness:
  "(0::int) \<le> 2 \<and>
   length (cosine_crossfade [1, 2, 3] [4, 5, 6, 7] 2) = 5 \<and>
   cosine_crossfade [1, 2, 3] [4, 5, 6, 7] 0 = [1, 2, 3, 4, 5, 6, 7] \<and>
   cosine_crossfade [] [4, 5, 6, 7] 2 = [4, 5, 6, 7]"
  using cosine_crossfade_length [of 2 "[1, 2, 3]" "[4, 5, 6, 7]"]
    cosine_crossfade_length [of 0 "[1, 2, 3]" "[4, 5, 6, 7]"]
    cosine_crossfade_length [of 2 "[]" "[4, 5, 6, 7]"]
  by simp




section \<open>Lookup by timestamp\<close>

lemma gap_free_covered:
  "gap_free cs \<Longrightarrow> cs \<noteq> [] \<Longrightarrow> t_start_ms (hd cs) \<le> t \<Longrightarrow> t < t_start_ms (last cs) \<Longrightarrow>
   \<exists>c\<in>set cs. covers t c"
proof (induction cs)
  case Nil
  then show ?case by simp
next
  case (Cons a cs)
  show ?case
  proof (cases "cs = []")
    case True
    then show ?thesis using Cons.prems by simp
  next
    case False
    then obtain b cs' where cs: "cs = b # cs'" by (cases cs) auto
    have gf: "gap_free cs" and ab: "t_start_ms b \<le> t_start_ms a + duration_ms a"
      using Cons.prems(1) by (simp_all add: cs)
    show ?thesis
    proof (cases "t < t_start_ms b")
      case True
      then have "covers t a" using Cons.prems(3) ab by (simp add: covers_def)
      then show ?thesis by auto
    next
      case f: False
      then have "\<exists>c\<in>set cs. covers t c"
        using Cons.IH gf False Cons.prems(4) cs by simp
      then show ?thesis by auto
    qed
  qed
qed

text \<open>
  C8 (amended). \<open>find_chunk_by_timestamp\<close> returns the first chunk in ascending index
  order whose interval \<open>[t_start_ms, t_start_ms + duration_ms)\<close> contains the timestamp;
  if no interval contains it and the timestamp is at or beyond the start of the last
  stored chunk, it returns that chunk. It returns no chunk exactly when no interval
  contains the timestamp and the project has no chunks or the timestamp precedes the
  start of the last stored chunk. When the stored timeline has no gaps, that happens
  only when the project has no chunks or the timestamp precedes the first chunk's start.
\<close>

theorem find_chunk_by_timestamp_cases:
  "(\<forall>c. find (covers t) (sort_key index (chunks p)) = Some c \<longrightarrow>
        find_chunk_by_timestamp p t = Some c) \<and>
   ((\<forall>c\<in>set (chunks p). \<not> covers t c) \<and> chunks p \<noteq> [] \<and> t_start_ms (last (chunks p)) \<le> t \<longrightarrow>
        find_chunk_by_timestamp p t = Some (last (chunks p))) \<and>
   (find_chunk_by_timestamp p t = None \<longleftrightarrow>
        (\<forall>c\<in>set (chunks p). \<not> covers t c) \<and>
        (chunks p = [] \<or> t < t_start_ms (last (chunks p)))) \<and>
   (gap_free (chunks p) \<and> find_chunk_by_timestamp p t = None \<longrightarrow>
        chunks p = [] \<or> t < t_start_ms (hd (chunks p)))"
proof -
  have n: "find (covers t) (sort_key index (chunks p)) = None \<longleftrightarrow> (\<forall>c\<in>set (chunks p). \<not> covers t c)"
    by (auto simp: find_None_iff)
  have a: "find_chunk_by_timestamp p t = Some c"
    if "find (covers t) (sort_key index (chunks p)) = Some c" for c
    using that by (simp add: find_chunk_by_timestamp_def)
  have b: "find_chunk_by_timestamp p t = Some (last (chunks p))"
    if "\<forall>c\<in>set (chunks p). \<not> covers t c" "chunks p \<noteq> []" "t_start_ms (last (chunks p)) \<le> t"
    using that n by (simp add: find_chunk_by_timestamp_def)
  have c: "find_chunk_by_timestamp p t = None \<longleftrightarrow>
        (\<forall>c\<in>set (chunks p). \<not> covers t c) \<and>
        (chunks p = [] \<or> t < t_start_ms (last (chunks p)))"
  proof (cases "find (covers t) (sort_key index (chunks p))")
    case None
    then show ?thesis using n by (auto simp: find_chunk_by_timestamp_def)
  next
    case (Some c)
    then have "\<not> (\<forall>c\<in>set (chunks p). \<not> covers t c)" using n by simp
    then show ?thesis using Some by (simp add: find_chunk_by_timestamp_def)
  qed
  have d: "chunks p = [] \<or> t < t_start_ms (hd (chunks p))"
    if "gap_free (chunks p)" "find_chunk_by_timestamp p t = None"
  proof (rule ccontr)
    assume "\<not> (chunks p = [] \<or> t < t_start_ms (hd (chunks p)))"
    then have ne: "chunks p \<noteq> []" and h: "t_start_ms (hd (chunks p)) \<le> t" by auto
    have nc: "\<forall>c\<in>set (chunks p). \<not> covers t c" and l: "t < t_start_ms (last (chunks p))"
      using that(2) c ne by auto
    from gap_free_covered [OF that(1) ne h l] nc show False by blast
  qed
  show ?thesis using a b c d by blast
qed

theorem find_chunk_by_timestamp_cases_witness:
  "find_chunk_by_timestamp
     (example_project 100 [example_chunk 1 0 1000, example_chunk 2 900 1000]) 500
     = Some (example_chunk 1 0 1000) \<and>
   find_chunk_by_timestamp
     (example_project 100 [example_chunk 1 0 1000, example_chunk 2 900 1000]) 1500
     = Some (example_chunk 2 900 1000) \<and>
   find_chunk_by_timestamp
     (example_project 100 [example_chunk 1 0 1000, example_chunk 2 900 1000]) 5000
     = Some (example_chunk 2 900 1000) \<and>
   gap_free [example_chunk 1 0 1000, example_chunk 2 900 1000] \<and>
   find_chunk_by_timestamp
     (example_project 100 [example_chunk 1 0 1000, example_chunk 2 900 1000]) (- 1) = None \<and>
   - 1 < t_start_ms (hd [example_chunk 1 0 1000, example_chunk 2 900 1000])"
proof -
  let ?cs = "[example_chunk 1 0 1000, example_chunk 2 900 1000]"
  let ?p = "example_project 100 ?cs"
  have c: "chunks ?p = ?cs" by (simp add: example_project_def)
  have f1: "find (covers 500) (sort_key index (chunks ?p)) = Some (example_chunk 1 0 1000)"
    by code_simp
  have f2: "find (covers 1500) (sort_key index (chunks ?p)) = Some (example_chunk 2 900 1000)"
    by code_simp
  have n3: "\<forall>c\<in>set (chunks ?p). \<not> covers 5000 c" by code_simp
  have l3: "t_start_ms (last (chunks ?p)) \<le> 5000" by code_simp
  have l: "last ?cs = example_chunk 2 900 1000" by simp
  have g: "gap_free (chunks ?p)" by code_simp
  have n4: "\<forall>c\<in>set (chunks ?p). \<not> covers (- 1) c" by code_simp
  have l4: "- 1 < t_start_ms (last (chunks ?p))" by code_simp
  have r4: "find_chunk_by_timestamp ?p (- 1) = None"
    using find_chunk_by_timestamp_cases [of "- 1" ?p] n4 l4 by blast
  have h4: "- 1 < t_start_ms (hd (chunks ?p))"
    using find_chunk_by_timestamp_cases [of "- 1" ?p] g r4 by (simp add: c)
  show ?thesis
    using find_chunk_by_timestamp_cases [of 500 ?p] find_chunk_by_timestamp_cases [of 1500 ?p]
      find_chunk_by_timestamp_cases [of 5000 ?p] f1 f2 n3 l3 g r4 h4
    by (simp add: c)
qed

text \<open>
  The claim as stated has no condition on the timeline. With chunks at \<open>(0, 1000)\<close> and
  \<open>(2000, 1000)\<close> the timestamp 1500 lies in the gap: it does not precede the first
  chunk's start, the project has chunks, and no chunk is returned.
\<close>

theorem find_chunk_by_timestamp_gap_counterexample:
  "find_chunk_by_timestamp
     (example_project 40 [example_chunk 1 0 1000, example_chunk 2 2000 1000]) 1500 = None \<and>
   chunks (example_project 40 [example_chunk 1 0 1000, example_chunk 2 2000 1000]) \<noteq> [] \<and>
   \<not> 1500 < t_start_ms (hd (chunks
         (example_project 40 [example_chunk 1 0 1000, example_chunk 2 2000 1000])))"
  by code_simp

section \<open>Text segmentation\<close>

lemma py_find_ge: "py_find s sub c = Some i \<Longrightarrow> c \<le> i"
  by (auto simp: py_find_def find_Some_iff)

lemma located_start_ge:
  "py_find s t c \<noteq> None \<or> py_find s t 0 = None \<Longrightarrow> c \<le> located_start s t c"
  by (auto simp: located_start_def dest: py_find_ge split: option.splits)

lemma locate_chunks_spans: "spans_from s c (locate_chunks s c raws)"
  by (induction raws arbitrary: c) (simp_all add: Let_def located_start_def)

lemma spans_from_nth:
  "spans_from s c ps \<Longrightarrow> k < length ps \<Longrightarrow>
   fst (ps ! k) \<noteq> [] \<and> snd (snd (ps ! k)) = fst (snd (ps ! k)) + length (fst (ps ! k))"
proof (induction ps arbitrary: c k)
  case Nil
  then show ?case by simp
next
  case (Cons p ps)
  obtain t st e where p: "p = (t, st, e)" by (cases p) auto
  show ?case using Cons p by (cases k) auto
qed

lemma spans_from_adjacent:
  "spans_from s c ps \<Longrightarrow> Suc k < length ps \<Longrightarrow>
   fst (snd (ps ! Suc k)) = located_start s (fst (ps ! Suc k)) (snd (snd (ps ! k)))"
proof (induction ps arbitrary: c k)
  case Nil
  then show ?case by simp
next
  case (Cons p ps)
  obtain t st e where p: "p = (t, st, e)" by (cases p) auto
  show ?case
  proof (cases k)
    case 0
    then obtain q ps' where ps: "ps = q # ps'" using Cons.prems(2) by (cases ps) auto
    obtain t' st' e' where q: "q = (t', st', e')" by (cases q) auto
    show ?thesis using Cons.prems(1) 0 by (simp add: p ps q)
  next
    case (Suc k')
    then show ?thesis using Cons p by auto
  qed
qed

text \<open>
  C9 (amended). In the output of text segmentation every span has a non-empty text and
  \<open>char_end = char_start + len(text)\<close>, and the cursor is always set to the end of the
  located span: each span starts where the lookup from the previous span's end puts it.
  The offsets do not decrease from one span to the next whenever the next text is found
  at or after the cursor, or is found nowhere in the script. When it is found only before
  the cursor, the span starts at that earlier occurrence.
\<close>

theorem chunk_script_offsets:
  assumes "chunk_script split script_text max_words = Inr ps"
  shows "(ps \<noteq> [] \<longrightarrow> fst (snd (ps ! 0)) = located_start script_text (fst (ps ! 0)) 0) \<and>
         (\<forall>k < length ps.
            fst (ps ! k) \<noteq> [] \<and>
            snd (snd (ps ! k)) = fst (snd (ps ! k)) + length (fst (ps ! k))) \<and>
         (\<forall>k. Suc k < length ps \<longrightarrow>
            fst (snd (ps ! Suc k)) =
              located_start script_text (fst (ps ! Suc k)) (snd (snd (ps ! k))) \<and>
            (py_find script_text (fst (ps ! Suc k)) (snd (snd (ps ! k))) \<noteq> None \<or>
             py_find script_text (fst (ps ! Suc k)) 0 = None \<longrightarrow>
               snd (snd (ps ! k)) \<le> fst (snd (ps ! Suc k)) \<and>
               fst (snd (ps ! k)) \<le> fst (snd (ps ! Suc k)) \<and>
               snd (snd (ps ! k)) \<le> snd (snd (ps ! Suc k))))"
proof -
  obtain raws where ps: "ps = locate_chunks script_text 0 raws"
    using assms by (auto simp: chunk_script_def bind_err_def split: sum.splits)
  have sp: "spans_from script_text 0 ps" unfolding ps by (rule locate_chunks_spans)
  have first: "fst (snd (ps ! 0)) = located_start script_text (fst (ps ! 0)) 0" if ne: "ps \<noteq> []"
  proof -
    obtain p ps' where c: "ps = p # ps'" using ne by (cases ps) auto
    obtain t st e where p: "p = (t, st, e)" by (cases p) auto
    show ?thesis using sp by (simp add: c p)
  qed
  have each: "fst (ps ! k) \<noteq> [] \<and>
      snd (snd (ps ! k)) = fst (snd (ps ! k)) + length (fst (ps ! k))" if "k < length ps" for k
    using spans_from_nth [OF sp that] .
  have adj: "fst (snd (ps ! Suc k)) =
      located_start script_text (fst (ps ! Suc k)) (snd (snd (ps ! k)))" if "Suc k < length ps" for k
    using spans_from_adjacent [OF sp that] .
  have mono: "snd (snd (ps ! k)) \<le> fst (snd (ps ! Suc k)) \<and>
      fst (snd (ps ! k)) \<le> fst (snd (ps ! Suc k)) \<and>
      snd (snd (ps ! k)) \<le> snd (snd (ps ! Suc k))"
    if k: "Suc k < length ps"
      and f: "py_find script_text (fst (ps ! Suc k)) (snd (snd (ps ! k))) \<noteq> None \<or>
              py_find script_text (fst (ps ! Suc k)) 0 = None" for k
  proof -
    have a: "snd (snd (ps ! k)) \<le> fst (snd (ps ! Suc k))"
      unfolding adj [OF k] by (rule located_start_ge [OF f])
    have b: "snd (snd (ps ! k)) = fst (snd (ps ! k)) + length (fst (ps ! k))"
      using each [of k] k by simp
    have c: "snd (snd (ps ! Suc k)) = fst (snd (ps ! Suc k)) + length (fst (ps ! Suc k))"
      using each [of "Suc k"] k by simp
    show ?thesis using a b c by simp
  qed
  show ?thesis using first each adj mono by blast
qed

theorem chunk_script_offsets_witness:
  "chunk_script example_split (''A. B. C. A. B.'') 2
     = Inr [(''A. B.'', 0, 5), (''C. A.'', 6, 11), (''B.'', 12, 14)] \<and>
   py_find ''A. B. C. A. B.'' ''C. A.'' 5 = Some 6 \<and>
   located_start ''A. B. C. A. B.'' ''A. B.'' 0 = 0 \<and>
   located_start ''A. B. C. A. B.'' ''C. A.'' 5 = 6 \<and>
   (5::nat) \<le> 6"
proof -
  let ?ps = "[(''A. B.'', 0::nat, 5::nat), (''C. A.'', 6, 11), (''B.'', 12, 14)]"
  have r: "chunk_script example_split (''A. B. C. A. B.'') 2 = Inr ?ps" by code_simp
  have f: "py_find ''A. B. C. A. B.'' ''C. A.'' 5 = Some 6" by code_simp
  note t = chunk_script_offsets [OF r]
  have a: "located_start ''A. B. C. A. B.'' ''A. B.'' 0 = 0" using t by simp
  have b: "located_start ''A. B. C. A. B.'' ''C. A.'' 5 = 6"
    using spec [OF conjunct2 [OF conjunct2 [OF t]], of 0] by simp
  show ?thesis using r f a b by simp
qed

text \<open>
  The claim as stated has the offsets never decrease. In the example script (\<open>A.\<close>, a
  line break, \<open>B. C. A. B.\<close>) the first text \<open>A. B.\<close> occurs only at offset 9; the
  second, \<open>C. A.\<close>, then occurs only before the cursor 14 and is placed at offset 6.
\<close>

theorem chunk_script_regress_counterexample:
  "chunk_script example_split example_script 2
     = Inr [(''A. B.'', 9, 14), (''C. A.'', 6, 11), (''B.'', 12, 14)] \<and> (6::nat) < 9"
  by code_simp

section \<open>Generation\<close>

lemma sorted_map_int_upt: "sorted (map int [i..<j])"
  by (induction j) (auto simp: sorted_append)

lemma add_chunk_append:
  assumes "map index (chunks project) = map int [1..<Suc k]" and "index chunk = int (Suc k)"
  shows "add_chunk project chunk = project\<lparr>chunks := chunks project @ [chunk]\<rparr>"
proof -
  have "\<forall>c\<in>set (chunks project). index c \<noteq> index chunk"
  proof
    fix c assume "c \<in> set (chunks project)"
    then have "index c \<in> set (map index (chunks project))" by simp
    then show "index c \<noteq> index chunk" unfolding assms by auto
  qed
  then have g: "get_chunk project (index chunk) = None"
    by (simp add: get_chunk_def find_None_iff)
  have "map index (chunks project @ [chunk]) = map int [1..<Suc (Suc k)]"
    using assms by simp
  then have "sorted (map index (chunks project @ [chunk]))"
    using sorted_map_int_upt by metis
  then have "sort_key index (chunks project @ [chunk]) = chunks project @ [chunk]"
    by (rule sort_key_id_if_sorted)
  then show ?thesis by (simp add: add_chunk_def g)
qed

lemma generate_loop_step:
  assumes "generate_loop render opts mock ((idx, chunk_text, cstart, cend) # rest) project nxt files
             = (Inr p, files')"
  shows "\<exists>dur nxt' files2.
           generate_loop render opts mock rest
             (add_chunk project
                \<lparr>index = int idx, filename = ''chunk_'' @ format_03d idx @ ''.flac'',
                 text = chunk_text, char_start = int cstart, char_end = int cend,
                 t_start_ms = nxt, duration_ms = dur,
                 seed = global_seed (settings project) + int idx - 1,
                 params = as_dict opts, speaker_id = 0\<rparr>) nxt' files2 = (Inr p, files')"
proof -
  obtain wave where
    w: "render (settings project) opts mock chunk_text
          (global_seed (settings project) + int idx - 1) None = Inr wave"
    using assms by (cases "render (settings project) opts mock chunk_text
          (global_seed (settings project) + int idx - 1) None") (simp_all add: Let_def)
  obtain dur where d: "calculate_duration_ms wave (sample_rate (settings project)) = Inr dur"
    using assms w by (cases "calculate_duration_ms wave (sample_rate (settings project))")
      (simp_all add: Let_def)
  show ?thesis
    using assms unfolding generate_loop.simps Let_def w d sum.case by blast
qed

lemma upt_zip_Cons:
  "zip [Suc k..<Suc k + length (x # xs)] (x # xs) =
     (Suc k, x) # zip [Suc (Suc k)..<Suc (Suc k) + length xs] xs"
proof -
  have "[Suc k..<Suc k + length (x # xs)] = Suc k # [Suc (Suc k)..<Suc (Suc k) + length xs]"
    by (subst upt_rec) simp
  then show ?thesis by simp
qed

lemma generate_loop_seeds:
  "generate_loop render opts mock (zip [Suc k..<Suc k + length xs] xs) project nxt files
     = (Inr p, files') \<Longrightarrow>
   map index (chunks project) = map int [1..<Suc k] \<Longrightarrow>
   \<forall>c\<in>set (chunks project). seed c = global_seed (settings project) + index c - 1 \<Longrightarrow>
   map index (chunks p) = map int [1..<Suc (k + length xs)] \<and>
   (\<forall>c\<in>set (chunks p). seed c = global_seed (settings project) + index c - 1) \<and>
   settings p = settings project \<and> project_root p = project_root project"
proof (induction xs arbitrary: k project nxt files)
  case Nil
  then show ?case by simp
next
  case (Cons x xs)
  obtain chunk_text cstart cend where x: "x = (chunk_text, cstart, cend)" by (cases x) auto
  have run: "generate_loop render opts mock
       ((Suc k, chunk_text, cstart, cend) # zip [Suc (Suc k)..<Suc (Suc k) + length xs] xs)
       project nxt files = (Inr p, files')"
    using Cons.prems(1) unfolding upt_zip_Cons x .
  from generate_loop_step [OF run] obtain dur nxt' files2 where
    rec: "generate_loop render opts mock (zip [Suc (Suc k)..<Suc (Suc k) + length xs] xs)
            (add_chunk project
                \<lparr>index = int (Suc k), filename = ''chunk_'' @ format_03d (Suc k) @ ''.flac'',
                 text = chunk_text, char_start = int cstart, char_end = int cend,
                 t_start_ms = nxt, duration_ms = dur,
                 seed = global_seed (settings project) + int (Suc k) - 1,
                 params = as_dict opts, speaker_id = 0\<rparr>) nxt' files2 = (Inr p, files')"
    by blast
  define chunk where "chunk = \<lparr>index = int (Suc k),
     filename = ''chunk_'' @ format_03d (Suc k) @ ''.flac'', text = chunk_text,
     char_start = int cstart, char_end = int cend, t_start_ms = nxt, duration_ms = dur,
     seed = global_seed (settings project) + int (Suc k) - 1,
     params = as_dict opts, speaker_id = 0\<rparr>"
  define project' where "project' = add_chunk project chunk"
  have pa: "project' = project\<lparr>chunks := chunks project @ [chunk]\<rparr>"
    unfolding project'_def by (rule add_chunk_append [OF Cons.prems(2)]) (simp add: chunk_def)
  have i1: "map index (chunks project') = map int [1..<Suc (Suc k)]"
    using Cons.prems(2) by (simp add: pa chunk_def)
  have i2: "\<forall>c\<in>set (chunks project'). seed c = global_seed (settings project') + index c - 1"
    using Cons.prems(3) by (auto simp: pa chunk_def)
  from Cons.IH [OF rec [folded chunk_def project'_def] i1 i2] show ?case by (simp add: pa)
qed

text \<open>
  C10. In every project that \<open>generate_project\<close> produces, the seed stored in a chunk
  is \<open>global_seed + i - 1\<close>, where \<open>i\<close> is the chunk's index; the indices are
  \<open>1, \<dots>, n\<close> for the \<open>n\<close> spans of the segmentation.
\<close>

theorem generate_project_seeds:
  assumes "generate_project split render files script_text root_dir s tts_options max_words mock
             = (Inr p, files')"
  shows "(\<forall>c\<in>set (chunks p). seed c = global_seed s + index c - 1) \<and>
         (\<exists>specs. chunk_script split script_text max_words = Inr specs \<and> specs \<noteq> [] \<and>
            map index (chunks p) = map int [1..<Suc (length specs)]) \<and>
         settings p = s\<lparr>default_params := as_dict tts_options\<rparr>"
proof -
  from assms obtain specs where
    sp: "chunk_script split script_text max_words = Inr specs" "specs \<noteq> []"
    and gl: "generate_loop render tts_options mock (zip [Suc 0..<Suc 0 + length specs] specs)
        \<lparr>project_root = root_dir, settings = s\<lparr>default_params := as_dict tts_options\<rparr>, chunks = []\<rparr>
        0 files = (Inr p, files')"
    by (auto simp: generate_project_def enumerate1_def Let_def split: sum.splits if_splits)
  from generate_loop_seeds [OF gl] sp show ?thesis by auto
qed

theorem generate_project_seeds_witness:
  "\<not> isl (fst example_generated) \<and>
   map index (chunks (projr (fst example_generated))) = [1, 2, 3] \<and>
   map seed (chunks (projr (fst example_generated))) = [42, 43, 44]"
proof -
  have a: "\<not> isl (fst example_generated)" by code_simp
  then obtain p where p: "fst example_generated = Inr p" by (cases "fst example_generated") auto
  have g: "generate_project example_split example_render [] example_script [''proj'']
       (example_settings 40) example_options 2 True = (Inr p, snd example_generated)"
    using p unfolding example_generated_def by (metis prod.collapse)
  have i: "map index (chunks (projr (fst example_generated))) = [1, 2, 3]" by code_simp
  have "\<forall>c\<in>set (chunks p). seed c = global_seed (example_settings 40) + index c - 1"
    using generate_project_seeds [OF g] by blast
  then have m: "map seed (chunks p) = map (\<lambda>j. 42 + j - 1) (map index (chunks p))"
    by (simp add: example_settings_def)
  have i': "map index (chunks p) = [1, 2, 3]" using i by (simp add: p)
  have "map seed (chunks p) = [42, 43, 44]" unfolding m i' by simp
  then show ?thesis using a i' by (simp add: p)
qed

section \<open>Archive versions\<close>























section \<open>Persistence round trip\<close>

lemma bind_err_Inr [simp]: "bind_err (Inr x) f = f x"
  by (simp add: bind_err_def)

lemma bind_err_Inl [simp]: "bind_err (Inl e) f = Inl e"
  by (simp add: bind_err_def)

lemma py_conv_simps [simp]:
  "py_int bi (JInt n) = Inr n"
  "py_float bi (JFloat f) = Inr f"
  "py_str bi (JStr s) = s"
  "py_dict bi (JObj d) = Inr d"
  by (simp_all add: py_int_def py_float_def py_str_def py_dict_def)

lemma settings_round_trip: "settings_from_dict bi (settings_to_dict s) = Inr s"
proof (cases "default_params s = []")
  case True
  then show ?thesis
    by (simp add: settings_from_dict_def settings_to_dict_def dict_get_def)
next
  case False
  then show ?thesis
    by (simp add: settings_from_dict_def settings_to_dict_def dict_get_def)
qed

lemma chunk_round_trip: "chunk_from_dict bi (chunk_to_dict c) = Inr c"
  by (simp add: chunk_from_dict_def chunk_to_dict_def dict_get_def subscript_def)

lemma chunks_round_trip: "map_err (chunk_from_dict bi) (map chunk_to_dict cs) = Inr cs"
  by (induction cs) (simp_all add: chunk_round_trip)

lemma sort_key_twice: "sort_key f (sort_key f xs) = sort_key f xs"
  by (rule sort_key_id_if_sorted) simp

lemma payload_round_trip:
  "project_from_payload bi parent (project_to_dict p) =
     Inr (p\<lparr>project_root := parent, chunks := sort_key index (chunks p)\<rparr>)"
  by (simp add: project_from_payload_def project_to_dict_def dict_get_def iterate_def
      settings_round_trip chunks_round_trip sort_key_twice)

lemma to_dict_sorted:
  "project_to_dict (p\<lparr>chunks := sort_key index (chunks p)\<rparr>) = project_to_dict p"
  by (simp add: project_to_dict_def sort_key_twice)


lemma typed_int:
  "field_ok is_int d k \<Longrightarrow> py_int bi (dict_get d k (JInt n)) = Inr (int_field d k n)"
  by (auto simp: field_ok_def is_int_def dict_get_def int_field_def split: option.splits json.splits)

lemma typed_float:
  "field_ok is_float d k \<Longrightarrow> py_float bi (dict_get d k (JFloat f)) = Inr (float_field d k f)"
  by (auto simp: field_ok_def is_float_def dict_get_def float_field_def split: option.splits json.splits)

lemma typed_str:
  "field_ok is_str d k \<Longrightarrow> py_str bi (dict_get d k (JStr s)) = str_field d k s"
  by (auto simp: field_ok_def is_str_def dict_get_def str_field_def split: option.splits json.splits)

lemma typed_obj:
  "field_ok is_obj d k \<Longrightarrow> py_dict bi (dict_get d k (JObj kvs)) = Inr (obj_field d k kvs)"
  by (auto simp: field_ok_def is_obj_def dict_get_def obj_field_def split: option.splits json.splits)

lemma settings_defaults:
  assumes "settings_fields_typed d"
  shows "settings_from_dict bi (JObj d) =
     Inr \<lparr>sample_rate = int_field d ''sample_rate'' 24000,
          loudness_lufs = float_field d ''loudness_lufs'' float_m16,
          model_name = str_field d ''model_name'' ''VibeVoice-Large'',
          attention_type = str_field d ''attention_type'' ''auto'',
          global_seed = int_field d ''global_seed'' 42,
          crossfade_ms = int_field d ''crossfade_ms'' 40,
          chunks_dir = str_field d ''chunks_dir'' ''chunks'',
          final_mix = str_field d ''final_mix'' ''final_mix.flac'',
          default_params = obj_field d ''default_params'' []\<rparr>"
  using assms unfolding settings_fields_typed_def
  by (simp add: settings_from_dict_def typed_int typed_float typed_str typed_obj)

lemma typed_subscript_int:
  "map_of d k \<noteq> None \<Longrightarrow> field_ok is_int d k \<Longrightarrow>
   subscript (JObj d) k = Inr (JInt (int_field d k dflt))"
  by (auto simp: field_ok_def is_int_def subscript_def int_field_def split: option.splits json.splits)

lemma typed_subscript_str:
  "map_of d k \<noteq> None \<Longrightarrow> field_ok is_str d k \<Longrightarrow>
   subscript (JObj d) k = Inr (JStr (str_field d k dflt))"
  by (auto simp: field_ok_def is_str_def subscript_def str_field_def split: option.splits json.splits)

lemma chunk_defaults:
  assumes "chunk_fields_typed d"
  shows "chunk_from_dict bi (JObj d) =
     Inr \<lparr>index = int_field d ''index'' 0,
          filename = str_field d ''filename'' [],
          text = str_field d ''text'' [],
          char_start = int_field d ''char_start'' 0,
          char_end = int_field d ''char_end'' 0,
          t_start_ms = int_field d ''t_start_ms'' 0,
          duration_ms = int_field d ''duration_ms'' 0,
          seed = int_field d ''seed'' 0,
          params = obj_field d ''params'' [],
          speaker_id = int_field d ''speaker_id'' 0\<rparr>"
proof -
  have a: "map_of d ''index'' \<noteq> None" "field_ok is_int d ''index''"
    "map_of d ''filename'' \<noteq> None" "field_ok is_str d ''filename''"
    using assms by (simp_all add: chunk_fields_typed_def)
  have b: "field_ok is_str d ''text''" "field_ok is_int d ''char_start''"
     "field_ok is_int d ''char_end''" "field_ok is_int d ''t_start_ms''"
     "field_ok is_int d ''duration_ms''" "field_ok is_int d ''seed''"
     "field_ok is_obj d ''params''" "field_ok is_int d ''speaker_id''"
    using assms by (simp_all add: chunk_fields_typed_def)
  show ?thesis
    unfolding chunk_from_dict_def
    by (simp add: typed_subscript_int [OF a(1,2), where dflt = 0]
        typed_subscript_str [OF a(3,4), where dflt = "[]"]
        typed_int [OF b(2)] typed_int [OF b(3)] typed_int [OF b(4)] typed_int [OF b(5)]
        typed_int [OF b(6)] typed_int [OF b(8)] typed_obj [OF b(7)] typed_str [OF b(1)])
qed


lemma project_root_json_path: "butlast (project_json_path p) = project_root p"
  by (simp add: project_json_path_def butlast_append)

text \<open>
  C7. Saving a project, loading the document and saving again gives the same document:
  loading what \<open>save_project\<close> wrote returns the project with its chunks in index
  order, saving that project rewrites the same file, and the document of any loaded
  project equals the one it was loaded from. Loading does not fail on missing optional
  fields: in a settings or chunk document whose present fields have their types, every
  field that is missing takes its default (24000, -16.0, VibeVoice-Large, auto, 42, 40,
  chunks, final_mix.flac and an empty dict for the settings; empty text, 0 and an empty
  dict for a chunk, which must have its index and filename), and a document with neither
  section loads as the default settings with no chunks.
\<close>

theorem persistence_round_trip:
  "load_project bi (save_project files p None) (project_json_path p)
     = Inr (p\<lparr>chunks := sort_key index (chunks p)\<rparr>) \<and>
   save_project (save_project files p None) (p\<lparr>chunks := sort_key index (chunks p)\<rparr>) None
     = save_project files p None \<and>
   project_from_payload bi parent (project_to_dict p)
     = Inr (p\<lparr>project_root := parent, chunks := sort_key index (chunks p)\<rparr>) \<and>
   project_to_dict (p\<lparr>project_root := parent, chunks := sort_key index (chunks p)\<rparr>)
     = project_to_dict p \<and>
   (settings_fields_typed d \<longrightarrow>
      settings_from_dict bi (JObj d) =
        Inr \<lparr>sample_rate = int_field d ''sample_rate'' 24000,
             loudness_lufs = float_field d ''loudness_lufs'' float_m16,
             model_name = str_field d ''model_name'' ''VibeVoice-Large'',
             attention_type = str_field d ''attention_type'' ''auto'',
             global_seed = int_field d ''global_seed'' 42,
             crossfade_ms = int_field d ''crossfade_ms'' 40,
             chunks_dir = str_field d ''chunks_dir'' ''chunks'',
             final_mix = str_field d ''final_mix'' ''final_mix.flac'',
             default_params = obj_field d ''default_params'' []\<rparr>) \<and>
   (chunk_fields_typed d' \<longrightarrow>
      chunk_from_dict bi (JObj d') =
        Inr \<lparr>index = int_field d' ''index'' 0,
             filename = str_field d' ''filename'' [],
             text = str_field d' ''text'' [],
             char_start = int_field d' ''char_start'' 0,
             char_end = int_field d' ''char_end'' 0,
             t_start_ms = int_field d' ''t_start_ms'' 0,
             duration_ms = int_field d' ''duration_ms'' 0,
             seed = int_field d' ''seed'' 0,
             params = obj_field d' ''params'' [],
             speaker_id = int_field d' ''speaker_id'' 0\<rparr>) \<and>
   project_from_payload bi parent (JObj []) =
     Inr \<lparr>project_root = parent,
          settings = \<lparr>sample_rate = 24000, loudness_lufs = float_m16,
                      model_name = ''VibeVoice-Large'', attention_type = ''auto'',
                      global_seed = 42, crossfade_ms = 40, chunks_dir = ''chunks'',
                      final_mix = ''final_mix.flac'', default_params = []\<rparr>,
          chunks = []\<rparr>"
proof (intro conjI impI)
  show "load_project bi (save_project files p None) (project_json_path p)
     = Inr (p\<lparr>chunks := sort_key index (chunks p)\<rparr>)"
    by (simp add: load_project_def save_project_def fs_write_def update_conv'
        payload_round_trip project_root_json_path)
  show "save_project (save_project files p None) (p\<lparr>chunks := sort_key index (chunks p)\<rparr>) None
     = save_project files p None"
    by (simp add: save_project_def fs_write_def project_json_path_def to_dict_sorted)
  show "project_from_payload bi parent (project_to_dict p)
     = Inr (p\<lparr>project_root := parent, chunks := sort_key index (chunks p)\<rparr>)"
    by (rule payload_round_trip)
  show "project_to_dict (p\<lparr>project_root := parent, chunks := sort_key index (chunks p)\<rparr>)
     = project_to_dict p"
    by (simp add: project_to_dict_def sort_key_twice)
  show "project_from_payload bi parent (JObj []) =
     Inr \<lparr>project_root = parent,
          settings = \<lparr>sample_rate = 24000, loudness_lufs = float_m16,
                      model_name = ''VibeVoice-Large'', attention_type = ''auto'',
                      global_seed = 42, crossfade_ms = 40, chunks_dir = ''chunks'',
                      final_mix = ''final_mix.flac'', default_params = []\<rparr>,
          chunks = []\<rparr>"
    by (simp add: project_from_payload_def settings_from_dict_def dict_get_def iterate_def)
qed (simp_all add: settings_defaults chunk_defaults)

theorem persistence_round_trip_witness:
  "settings_fields_typed [(''crossfade_ms'', JInt 100)] \<and>
   settings_from_dict example_builtins (JObj [(''crossfade_ms'', JInt 100)])
     = Inr (example_settings 100) \<and>
   chunk_fields_typed [(''index'', JInt 1), (''filename'', JStr ''chunk_001.flac''),
                       (''duration_ms'', JInt 1000)] \<and>
   chunk_from_dict example_builtins
       (JObj [(''index'', JInt 1), (''filename'', JStr ''chunk_001.flac''),
              (''duration_ms'', JInt 1000)])
     = Inr \<lparr>index = 1, filename = ''chunk_001.flac'', text = [], char_start = 0,
            char_end = 0, t_start_ms = 0, duration_ms = 1000, seed = 0, params = [],
            speaker_id = 0\<rparr> \<and>
   load_project example_builtins
       (save_project [] (example_project 40 [example_chunk 2 900 1000, example_chunk 1 0 1000]) None)
       [''proj'', ''project.json'']
     = Inr (example_project 40 [example_chunk 1 0 1000, example_chunk 2 900 1000])"
proof -
  let ?d = "[(''crossfade_ms'', JInt 100)]"
  let ?d' = "[(''index'', JInt 1), (''filename'', JStr ''chunk_001.flac''),
              (''duration_ms'', JInt 1000)]"
  let ?p = "example_project 40 [example_chunk 2 900 1000, example_chunk 1 0 1000]"
  note t = persistence_round_trip [of example_builtins "[]" ?p "[''proj'']" ?d ?d']
  have h1: "settings_fields_typed ?d" by code_simp
  have h2: "chunk_fields_typed ?d'" by code_simp
  have e1: "\<lparr>sample_rate = int_field ?d ''sample_rate'' 24000,
             loudness_lufs = float_field ?d ''loudness_lufs'' float_m16,
             model_name = str_field ?d ''model_name'' ''VibeVoice-Large'',
             attention_type = str_field ?d ''attention_type'' ''auto'',
             global_seed = int_field ?d ''global_seed'' 42,
             crossfade_ms = int_field ?d ''crossfade_ms'' 40,
             chunks_dir = str_field ?d ''chunks_dir'' ''chunks'',
             final_mix = str_field ?d ''final_mix'' ''final_mix.flac'',
             default_params = obj_field ?d ''default_params'' []\<rparr> = example_settings 100"
    by code_simp
  have e2: "\<lparr>index = int_field ?d' ''index'' 0,
             filename = str_field ?d' ''filename'' [],
             text = str_field ?d' ''text'' [],
             char_start = int_field ?d' ''char_start'' 0,
             char_end = int_field ?d' ''char_end'' 0,
             t_start_ms = int_field ?d' ''t_start_ms'' 0,
             duration_ms = int_field ?d' ''duration_ms'' 0,
             seed = int_field ?d' ''seed'' 0,
             params = obj_field ?d' ''params'' [],
             speaker_id = int_field ?d' ''speaker_id'' 0\<rparr>
          = \<lparr>index = 1, filename = ''chunk_001.flac'', text = [], char_start = 0,
            char_end = 0, t_start_ms = 0, duration_ms = 1000, seed = 0, params = [],
            speaker_id = 0\<rparr>"
    by code_simp
  have e3: "project_json_path ?p = [''proj'', ''project.json'']" by code_simp
  have e4: "?p\<lparr>chunks := sort_key index (chunks ?p)\<rparr>
          = example_project 40 [example_chunk 1 0 1000, example_chunk 2 900 1000]"
    by code_simp
  have a: "settings_from_dict example_builtins (JObj ?d) = Inr (example_settings 100)"
    using t h1 unfolding e1 by blast
  have b: "chunk_from_dict example_builtins (JObj ?d') =
       Inr \<lparr>index = 1, filename = ''chunk_001.flac'', text = [], char_start = 0,
            char_end = 0, t_start_ms = 0, duration_ms = 1000, seed = 0, params = [],
            speaker_id = 0\<rparr>"
    using t h2 unfolding e2 by blast
  have c: "load_project example_builtins (save_project [] ?p None) [''proj'', ''project.json'']
       = Inr (example_project 40 [example_chunk 1 0 1000, example_chunk 2 900 1000])"
    using conjunct1 [OF t] unfolding e3 e4 .
  show ?thesis using h1 h2 a b c by (intro conjI)
qed

section \<open>Locked-mode replacement\<close>

lemma desired_samples_pos: "1 \<le> desired_samples d sr"
  by (simp add: desired_samples_def)

lemma time_stretch_length:
  assumes "0 < d" "wave \<noteq> []" "calculate_duration_ms wave sr = Inr cur" "cur \<noteq> 0"
    and "stretch wave (real_of_int cur / real_of_int d) = Inr s"
  shows "time_stretch_to_duration stretch wave sr d =
           Inr (if nat (desired_samples d sr) < length s then take (nat (desired_samples d sr)) s
                else s @ replicate (nat (desired_samples d sr) - length s) 0)"
  using assms by (simp add: time_stretch_to_duration_def Let_def)

lemma reconcile_duration_locked:
  assumes "0 < duration_ms chunk"
    and "wave \<noteq> []"
    and "calculate_duration_ms wave sr = Inr cur"
    and "cur \<noteq> 0"
    and "stretch wave (real_of_int cur / real_of_int (duration_ms chunk)) = Inr s"
  shows "reconcile_duration stretch ''locked'' sr chunk wave =
           Inr (if nat (desired_samples (duration_ms chunk) sr) < length s
                then take (nat (desired_samples (duration_ms chunk) sr)) s
                else s @ replicate (nat (desired_samples (duration_ms chunk) sr) - length s) 0,
                chunk)"
  using assms time_stretch_length [of "duration_ms chunk" wave sr cur stretch s]
  by (simp add: reconcile_duration_def)

lemma render_replacement_keeps:
  assumes "render_replacement render load_audio files s defaults chunk mode seed_opt overrides
             import_path mock = Inr (wave, chunk1)"
  shows "duration_ms chunk1 = duration_ms chunk \<and> filename chunk1 = filename chunk \<and>
         index chunk1 = index chunk"
  using assms
  by (auto simp: render_replacement_def bind_err_def Let_def split: if_splits sum.splits option.splits)

lemma chunk_position_less:
  assumes "get_chunk project idx = Some chunk"
  shows "chunk_position project idx < length (chunks project)"
proof -
  have "\<exists>c\<in>set (chunks project). index c = idx"
    using assms by (auto simp: get_chunk_def find_Some_iff)
  then have "takeWhile (\<lambda>c. index c \<noteq> idx) (chunks project) \<noteq> chunks project"
    by (metis (mono_tags, lifting) takeWhile_eq_all_conv)
  then show ?thesis
    unfolding chunk_position_def
    by (metis length_takeWhile_le le_neq_implies_less takeWhile_eq_take take_all_iff le_refl
        length_take min.absorb2 nat_less_le)
qed

lemma target_not_document:
  "chunks_directory project @ [name] \<noteq> project_json_path project'"
  if "project_root project' = project_root project"
  using that by (simp add: chunks_directory_def project_json_path_def)

text \<open>
  C3 (amended). For a chunk whose stored duration \<open>D\<close> is strictly positive, replacing
  it in locked timeline mode with a new waveform that is not empty and whose own duration
  does not round to 0 ms writes audio whose sample count is exactly the target
  \<open>max(round(D * sample_rate / 1000), 1)\<close>: the stretched waveform is cut when it is
  longer and padded with zeros when it is shorter. The chunk that \<open>replace_chunk\<close>
  returns keeps \<open>duration_ms = D\<close>.
\<close>

theorem locked_replacement_sample_count:
  assumes "load_project bi files project_path = Inr project"
    and "get_chunk project idx = Some chunk"
    and "0 < duration_ms chunk"
    and "default_tts_options bi (settings project) = Inr defaults"
    and "render_replacement render load_audio (snd (archive_chunk gm files project chunk))
           (settings project) defaults chunk mode seed_opt overrides import_path mock
           = Inr (wave, chunk1)"
    and "wave \<noteq> []"
    and "calculate_duration_ms wave (sample_rate (settings project)) = Inr cur"
    and "cur \<noteq> 0"
    and "stretch wave (real_of_int cur / real_of_int (duration_ms chunk)) = Inr s"
  shows "\<exists>out files'.
           replace_chunk bi gm render load_audio stretch files project_path idx mode ''locked''
             seed_opt overrides import_path mock = (Inr chunk1, files') \<and>
           duration_ms chunk1 = duration_ms chunk \<and>
           map_of files' (chunks_directory project @ [filename chunk]) = Some (Audio out) \<and>
           time_stretch_to_duration stretch wave (sample_rate (settings project))
             (duration_ms chunk) = Inr out \<and>
           out = (if nat (desired_samples (duration_ms chunk) (sample_rate (settings project)))
                     < length s
                  then take (nat (desired_samples (duration_ms chunk)
                                    (sample_rate (settings project)))) s
                  else s @ replicate (nat (desired_samples (duration_ms chunk)
                                             (sample_rate (settings project))) - length s) 0) \<and>
           int (length out) = desired_samples (duration_ms chunk) (sample_rate (settings project)) \<and>
           desired_samples (duration_ms chunk) (sample_rate (settings project)) =
             max (round_half_even_div (duration_ms chunk * sample_rate (settings project)) 1000) 1"
proof -
  define sr where "sr = sample_rate (settings project)"
  define n where "n = nat (desired_samples (duration_ms chunk) sr)"
  define out where "out = (if n < length s then take n s else s @ replicate (n - length s) 0)"
  define files1 where "files1 = snd (archive_chunk gm files project chunk)"
  define target where "target = chunks_directory project @ [filename chunk]"
  define pos where "pos = chunk_position project idx"
  define project1 where "project1 = project\<lparr>chunks := (chunks project)[pos := chunk1]\<rparr>"
  define files' where
    "files' = save_project (fs_write files1 target (Audio out)) project1 None"
  have keep: "duration_ms chunk1 = duration_ms chunk"
    using render_replacement_keeps [OF assms(5)] by simp
  have ts: "time_stretch_to_duration stretch wave sr (duration_ms chunk) = Inr out"
    unfolding out_def n_def
    using assms(3,6,7,8,9) by (intro time_stretch_length [where cur = cur]) (simp_all add: sr_def)
  have rc: "reconcile_duration stretch ''locked'' sr chunk1 wave = Inr (out, chunk1)"
    unfolding out_def n_def
    using reconcile_duration_locked [of chunk1 wave sr cur stretch s] assms(3,6,7,8,9)
    by (simp add: keep sr_def)
  have pos: "pos < length (chunks project)"
    unfolding pos_def by (rule chunk_position_less [OF assms(2)])
  have res: "chunks project1 ! pos = chunk1"
    using pos by (simp add: project1_def)
  have run: "replace_chunk bi gm render load_audio stretch files project_path idx mode ''locked''
      seed_opt overrides import_path mock = (Inr chunk1, files')"
    using pos
    by (simp add: replace_chunk_def assms(1,2,4) assms(5) [folded files1_def] rc [unfolded sr_def]
        Let_def files1_def [symmetric] target_def [symmetric] pos_def [symmetric]
        project1_def [symmetric] files'_def)
  have doc: "target \<noteq> project_json_path project1"
    unfolding target_def by (rule target_not_document) (simp add: project1_def)
  have written: "map_of files' target = Some (Audio out)"
    using doc by (simp add: files'_def save_project_def fs_write_def update_conv')
  have len: "int (length out) = desired_samples (duration_ms chunk) sr"
    using desired_samples_pos [of "duration_ms chunk" sr] by (simp add: out_def n_def)
  show ?thesis
    using run keep written ts len
    by (intro exI [of _ out] exI [of _ files'])
       (simp add: out_def n_def sr_def target_def desired_samples_def)
qed

theorem locked_replacement_sample_count_witness:
  "load_project example_builtins (example_project_files 2) [''proj'', ''project.json'']
     = Inr (example_project 40 [example_chunk 1 0 2]) \<and>
   get_chunk (example_project 40 [example_chunk 1 0 2]) 1 = Some (example_chunk 1 0 2) \<and>
   0 < duration_ms (example_chunk 1 0 2) \<and>
   calculate_duration_ms (replicate 144 0) 24000 = Inr 6 \<and>
   fst example_replacement
     = Inr ((example_chunk 1 0 2)\<lparr>seed := 42, params := as_dict example_options\<rparr>) \<and>
   map_of (snd example_replacement) [''proj'', ''chunks'', ''chunk_001.flac'']
     = Some (Audio (replicate 48 0)) \<and>
   desired_samples 2 24000 = 48"
proof -
  let ?p = "example_project 40 [example_chunk 1 0 2]"
  let ?c = "example_chunk 1 0 2"
  let ?c1 = "(example_chunk 1 0 2)\<lparr>seed := 42, params := as_dict example_options\<rparr>"
  let ?w = "replicate 144 (0::real)"
  have h1: "load_project example_builtins (example_project_files 2) [''proj'', ''project.json'']
              = Inr ?p"
    by code_simp
  have h2: "get_chunk ?p 1 = Some ?c" by code_simp
  have h3: "0 < duration_ms ?c" by code_simp
  have h4: "default_tts_options example_builtins (settings ?p) = Inr example_options"
    by code_simp
  have h5: "render_replacement example_render example_loader
              (snd (archive_chunk star_match (example_project_files 2) ?p ?c))
              (settings ?p) example_options ?c ''tts'' None None None True = Inr (?w, ?c1)"
    by code_simp
  have h6: "?w \<noteq> []" by code_simp
  have sr: "sample_rate (settings ?p) = 24000" by code_simp
  have h7: "calculate_duration_ms ?w (sample_rate (settings ?p)) = Inr 6" by code_simp
  have h8: "(6::int) \<noteq> 0" by simp
  have h9: "example_stretch ?w (real_of_int 6 / real_of_int (duration_ms ?c)) = Inr ?w"
    by (simp add: example_stretch_def)
  have d: "duration_ms ?c = 2" by code_simp
  have n: "desired_samples 2 24000 = 48" by code_simp
  have tgt: "chunks_directory ?p @ [filename ?c] = [''proj'', ''chunks'', ''chunk_001.flac'']"
    by code_simp
  from locked_replacement_sample_count [where stretch = example_stretch
      and render = example_render and load_audio = example_loader and gm = star_match
      and s = "replicate 144 0", OF h1 h2 h3 h4 h5 h6 h7 h8 h9]
  obtain out files' where
    r: "example_replacement = (Inr ?c1, files')"
    and m: "map_of files' [''proj'', ''chunks'', ''chunk_001.flac''] = Some (Audio out)"
    and o: "out = (if nat (desired_samples 2 24000) < length ?w
                   then take (nat (desired_samples 2 24000)) ?w
                   else ?w @ replicate (nat (desired_samples 2 24000) - length ?w) 0)"
    unfolding example_replacement_def d sr tgt by blast
  have o': "out = replicate 48 0" unfolding o n by simp
  have f: "fst example_replacement = Inr ?c1" unfolding r by simp
  have g: "map_of (snd example_replacement) [''proj'', ''chunks'', ''chunk_001.flac'']
             = Some (Audio (replicate 48 0))"
    unfolding r using m o' by simp
  show ?thesis using h1 h2 h3 h7 [unfolded sr] f g n by (intro conjI)
qed

text \<open>
  The claim as stated covers every new waveform. One of five samples at 24000 Hz lasts
  less than half a millisecond, \<open>calculate_duration_ms\<close> gives 0 and
  \<open>time_stretch_to_duration\<close> returns it as it is: five samples are written for a chunk
  that keeps \<open>duration_ms = 1000\<close>, whose target is 24000 samples.
\<close>

theorem locked_replacement_short_audio_counterexample:
  "\<not> isl (fst example_short_replacement) \<and>
   duration_ms (projr (fst example_short_replacement)) = 1000 \<and>
   map_of (snd example_short_replacement) [''proj'', ''chunks'', ''chunk_001.flac'']
     = Some (Audio [1, 1, 1, 1, 1]) \<and>
   desired_samples 1000 24000 = 24000"
  by code_simp

end
